theory Spec2Isabelle
  imports Complex_Main
begin

section \<open>Values, errors and effects\<close>

text \<open>
  A JavaScript number is modelled as a real: the code only copies numbers, negates one,
  compares two of them with the constant 0 and hands them to the platform's formatter.
  A reference to a scene-graph object (SceneObject, Text, Image, button) is the object's
  identity; an input of a component that the Inspector leaves unassigned is \<open>None\<close>.
\<close>

type_synonym number = real
type_synonym ref = nat
type_synonym vec4 = "number \<times> number \<times> number \<times> number"
type_synonym quat = "number \<times> number \<times> number \<times> number"
type_synonym vec3 = "number \<times> number \<times> number"

text \<open>What \<open>JSON.parse\<close> returns: an object is the list of its own keys with their values
  (the value of a key is the one of its first entry).\<close>

datatype json =
    JNull
  | JBool bool
  | JNumber number
  | JString string
  | JArray "json list"
  | JObject "(string \<times> json) list"

datatype jserror = SyntaxError string | TypeError

text \<open>The text of \<open>${error}\<close>; the engine's message for a TypeError is not modelled.\<close>

fun errorString :: "jserror \<Rightarrow> string" where
  "errorString (SyntaxError m) = ''SyntaxError: '' @ m"
| "errorString TypeError = ''TypeError''"

text \<open>A pin of the map surface, as \<open>createMapPin\<close> hands it out.\<close>

record MapPin =
  pinId :: nat
  pinLongitude :: json
  pinLatitude :: json

text \<open>Everything the code does to the world outside its own fields, in program order.\<close>

datatype effect =
    Print string
  | SetEnabled ref bool
  | SetText ref string
  | SetInactive ref bool
  | SetTextFillColor ref vec4
  | SetLocalRotation ref number
  | SetWorldPosition ref vec3
  | SetWorldRotation ref quat
  | RemoveMapPin MapPin
  | CreateMapPin json json
  | GetCurrentPosition
  | ResetDelayedCallback number

text \<open>
  The platform the components run on: \<open>global.deviceInfoSystem.isEditor()\<close>,
  \<open>Number.prototype.toFixed\<close>, \<open>JSON.parse\<close> (which throws a SyntaxError or returns a
  value), \<open>GeoLocation.getNorthAlignedHeading\<close>, and the engine's \<open>vec3.normalize\<close> and
  \<open>quat.lookAt\<close>.
\<close>

record platform =
  isEditor :: bool
  toFixed :: "number \<Rightarrow> nat \<Rightarrow> string"
  JSON_parse :: "string \<Rightarrow> jserror + json"
  getNorthAlignedHeading :: "quat \<Rightarrow> number"
  vec3_normalize :: "vec3 \<Rightarrow> vec3"
  quat_lookAt :: "vec3 \<Rightarrow> vec3 \<Rightarrow> quat"

section \<open>The components' fields\<close>

text \<open>
  The scene holds one instance of each component, so a reference from one component to
  another is the flag "the input is assigned".
\<close>

record LocationManager =
  lm_floatingDetailsUIContentManager :: bool
  locationSource :: string
  lm_latitude :: number
  lm_longitude :: number
  lm_horizontalAccuracy :: number
  lm_altitude :: number
  lm_verticalAccuracy :: number
  heading :: number
  pendingPositionRequests :: nat
  repeatProcessGeoPositionEvent :: "number option"

text \<open>
  \<open>pendingPositionRequests\<close> counts the \<open>getCurrentPosition\<close> requests of the location
  service whose callback has not run yet; \<open>repeatProcessGeoPositionEvent\<close> is the delay the
  DelayedCallbackEvent is armed with, if it is armed.

  The fields of the MobileKitManager are declared \<open>number\<close>, and are assigned whatever value
  the parsed payload holds under the key: they are JSON values at run time.
\<close>

record MobileKitManager =
  mk_floatingDetailsUIContentManager :: bool
  mk_latitude :: json
  mk_longitude :: json
  mk_horizontalAccuracy :: json
  mk_altitude :: json
  mk_verticalAccuracy :: json

record HandLockedUIContentManager =
  hl_locationManager :: bool
  gpsStatusWhiteImage :: "ref option"
  gpsStatusRedImage :: "ref option"
  gpsStatusBlueImage :: "ref option"
  gpsStatusYellowImage :: "ref option"
  gpsStatusGreenImage :: "ref option"
  sourceValueText :: "ref option"
  accuracyValueText :: "ref option"
  compassImage :: "ref option"
  headingValueText :: "ref option"
  lastLocationSource :: string

text \<open>An Image input is identified with the scene object it sits on (\<open>image.sceneObject\<close>).\<close>

record FloatingDetailsUIContentManager =
  mapComponent :: bool
  fd_locationManager :: bool
  locationDataText :: "ref option"
  mobileKitManagerSceneObject :: "ref option"
  fd_mobileKitManager :: bool
  startMobileKitButton :: "ref option"
  startMobileKitButtonText :: "ref option"
  mobileKitText :: "ref option"
  mobileKitPin :: "MapPin option"

record FloatingDetailsUIPresentationManager =
  fp_floatingDetailsUIFrame :: "ref option"

record HandLockedUIPresentationManager =
  handLockedUIBackPlate :: "ref option"
  hp_floatingDetailsUIContentManager :: bool
  hp_floatingDetailsUIFrame :: "ref option"

text \<open>
  Modelled from the spec: the external map surface (MapComponent, whose script is not among
  the sources) holds the pins created on it; \<open>createMapPin\<close> adds a pin with a fresh identity
  at the given coordinates and returns it, \<open>removeMapPin\<close> takes the pin with that identity
  off the surface.
\<close>

record MapComponent =
  mapPins :: "MapPin list"
  nextPinId :: nat

definition createMapPin :: "json \<Rightarrow> json \<Rightarrow> MapComponent \<Rightarrow> MapPin \<times> MapComponent" where
  "createMapPin lon lat m =
     (let pin = \<lparr>pinId = nextPinId m, pinLongitude = lon, pinLatitude = lat\<rparr>
      in (pin, m\<lparr>mapPins := mapPins m @ [pin], nextPinId := Suc (nextPinId m)\<rparr>))"

definition removeMapPin :: "MapPin \<Rightarrow> MapComponent \<Rightarrow> MapComponent" where
  "removeMapPin pin m = m\<lparr>mapPins := filter (\<lambda>q. pinId q \<noteq> pinId pin) (mapPins m)\<rparr>"

text \<open>The world: the components, the map surface and the scene objects' properties.\<close>

record world =
  locationManager :: LocationManager
  mobileKitManager :: MobileKitManager
  handLockedUIContentManager :: HandLockedUIContentManager
  floatingDetailsUIContentManager :: FloatingDetailsUIContentManager
  floatingDetailsUIPresentationManager :: FloatingDetailsUIPresentationManager
  handLockedUIPresentationManager :: HandLockedUIPresentationManager
  mapObject :: MapComponent
  enabled :: "ref \<Rightarrow> bool"
  textString :: "ref \<Rightarrow> string"
  textFillColor :: "ref \<Rightarrow> vec4"
  inactive :: "ref \<Rightarrow> bool"
  localRotation :: "ref \<Rightarrow> number"
  worldPosition :: "ref \<Rightarrow> vec3"
  worldRotation :: "ref \<Rightarrow> quat"

section \<open>Statements\<close>

text \<open>
  A statement runs on a world and gives: the exception it threw, if any; the world it
  left; the effects it had, in order. A thrown exception keeps what was done before it.
\<close>

type_synonym step = "world \<Rightarrow> jserror option \<times> world \<times> effect list"

definition outcome :: "jserror option \<times> world \<times> effect list \<Rightarrow> jserror option" where
  "outcome r = fst r"

definition after :: "jserror option \<times> world \<times> effect list \<Rightarrow> world" where
  "after r = fst (snd r)"

definition effects :: "jserror option \<times> world \<times> effect list \<Rightarrow> effect list" where
  "effects r = snd (snd r)"

definition skip :: step where
  "skip w = (None, w, [])"

definition throw :: "jserror \<Rightarrow> step" where
  "throw e w = (Some e, w, [])"

definition print :: "string \<Rightarrow> step" where
  "print s w = (None, w, [Print s])"

definition andThen :: "step \<Rightarrow> step \<Rightarrow> step" where
  "andThen f g w =
     (case f w of
        (Some e, w1, l1) \<Rightarrow> (Some e, w1, l1)
      | (None, w1, l1) \<Rightarrow> (case g w1 of (r, w2, l2) \<Rightarrow> (r, w2, l1 @ l2)))"

definition seqAll :: "step list \<Rightarrow> step" where
  "seqAll fs = foldr andThen fs skip"

definition tryCatch :: "step \<Rightarrow> (jserror \<Rightarrow> step) \<Rightarrow> step" where
  "tryCatch f h w =
     (case f w of
        (Some e, w1, l1) \<Rightarrow> (case h e w1 of (r, w2, l2) \<Rightarrow> (r, w2, l1 @ l2))
      | (None, w1, l1) \<Rightarrow> (None, w1, l1))"

text \<open>Writing a property of a referenced object; an unassigned reference is \<open>undefined\<close>,
  and writing a property of \<open>undefined\<close> throws a TypeError.\<close>

definition setEnabled :: "ref option \<Rightarrow> bool \<Rightarrow> step" where
  "setEnabled r b w =
     (case r of
        None \<Rightarrow> (Some TypeError, w, [])
      | Some i \<Rightarrow> (None, w\<lparr>enabled := (enabled w)(i := b)\<rparr>, [SetEnabled i b]))"

definition setText :: "ref option \<Rightarrow> string \<Rightarrow> step" where
  "setText r s w =
     (case r of
        None \<Rightarrow> (Some TypeError, w, [])
      | Some i \<Rightarrow> (None, w\<lparr>textString := (textString w)(i := s)\<rparr>, [SetText i s]))"

definition setInactive :: "ref option \<Rightarrow> bool \<Rightarrow> step" where
  "setInactive r b w =
     (case r of
        None \<Rightarrow> (Some TypeError, w, [])
      | Some i \<Rightarrow> (None, w\<lparr>inactive := (inactive w)(i := b)\<rparr>, [SetInactive i b]))"

definition setTextFillColor :: "ref option \<Rightarrow> vec4 \<Rightarrow> step" where
  "setTextFillColor r c w =
     (case r of
        None \<Rightarrow> (Some TypeError, w, [])
      | Some i \<Rightarrow> (None, w\<lparr>textFillColor := (textFillColor w)(i := c)\<rparr>, [SetTextFillColor i c]))"

definition setLocalRotation :: "ref option \<Rightarrow> number \<Rightarrow> step" where
  "setLocalRotation r a w =
     (case r of
        None \<Rightarrow> (Some TypeError, w, [])
      | Some i \<Rightarrow> (None, w\<lparr>localRotation := (localRotation w)(i := a)\<rparr>, [SetLocalRotation i a]))"

text \<open>A chain of \<open>+\<close> on strings whose operands may throw: the first throw wins.\<close>

fun joinResults :: "(jserror + string) list \<Rightarrow> jserror + string" where
  "joinResults [] = Inr []"
| "joinResults (Inl e # rest) = Inl e"
| "joinResults (Inr s # rest) =
     (case joinResults rest of Inl e \<Rightarrow> Inl e | Inr t \<Rightarrow> Inr (s @ t))"

text \<open>\<open>v.toFixed(n)\<close> on a run-time value: only a number has the method.\<close>

fun toFixedOf :: "platform \<Rightarrow> json \<Rightarrow> nat \<Rightarrow> jserror + string" where
  "toFixedOf P (JNumber x) n = Inr (toFixed P x n)"
| "toFixedOf P v n = Inl TypeError"

text \<open>The degree suffix as the source files hold it (the bytes of the literal).\<close>

definition degreeSuffix :: string where
  "degreeSuffix = [CHR 0xC3, CHR 0x82, CHR 0xC2, CHR 0xB0]"

section \<open>FloatingDetailsUIContentManager\<close>

definition updateLocationText :: "platform \<Rightarrow> step" where
  "updateLocationText P w =
     (let fd = floatingDetailsUIContentManager w; lm = locationManager w in
      if \<not> fd_locationManager fd \<or> locationDataText fd = None then skip w
      else setText (locationDataText fd)
        (''Source: '' @ locationSource lm @
         ''\<newline>Latitude: '' @ toFixed P (lm_latitude lm) 6 @
         ''\<newline>Longitude: '' @ toFixed P (lm_longitude lm) 6 @
         ''\<newline>Horizontal Accuracy: '' @ toFixed P (lm_horizontalAccuracy lm) 0 @ ''m'' @
         ''\<newline>Altitude: '' @ toFixed P (lm_altitude lm) 0 @ ''m'' @
         ''\<newline>Vertical Accuracy: '' @ toFixed P (lm_verticalAccuracy lm) 0 @ ''m'' @
         ''\<newline>Heading: '' @ toFixed P (heading lm) 0 @ degreeSuffix) w)"

definition removeMobileKitPin :: step where
  "removeMobileKitPin w =
     (let fd = floatingDetailsUIContentManager w in
      case mobileKitPin fd of
        None \<Rightarrow> skip w
      | Some pin \<Rightarrow>
          if mapComponent fd
          then (None,
                w\<lparr>mapObject := removeMapPin pin (mapObject w),
                  floatingDetailsUIContentManager := fd\<lparr>mobileKitPin := None\<rparr>\<rparr>,
                [RemoveMapPin pin])
          else skip w)"

text \<open>The last branch of \<open>updateMobileKitPin\<close>: remove the pin there is, create a new one.\<close>

definition replaceMobileKitPin :: step where
  "replaceMobileKitPin w =
     (let fd = floatingDetailsUIContentManager w; mk = mobileKitManager w;
          (m1, l1) = (case mobileKitPin fd of
                        None \<Rightarrow> (mapObject w, [])
                      | Some pin \<Rightarrow> (removeMapPin pin (mapObject w), [RemoveMapPin pin]));
          (pin', m2) = createMapPin (mk_longitude mk) (mk_latitude mk) m1
      in (None,
          w\<lparr>mapObject := m2,
            floatingDetailsUIContentManager := fd\<lparr>mobileKitPin := Some pin'\<rparr>\<rparr>,
          l1 @ [CreateMapPin (mk_longitude mk) (mk_latitude mk)]))"

definition updateMobileKitPin :: "platform \<Rightarrow> step" where
  "updateMobileKitPin P w =
     (let fd = floatingDetailsUIContentManager w; mk = mobileKitManager w in
      if \<not> mapComponent fd then skip w
      else if isEditor P then removeMobileKitPin w
      else (case mobileKitManagerSceneObject fd of
              None \<Rightarrow> throw TypeError w
            | Some so \<Rightarrow>
                if \<not> enabled w so then removeMobileKitPin w
                else if \<not> fd_mobileKitManager fd then throw TypeError w
                else if mk_latitude mk = JNumber 0 \<and> mk_longitude mk = JNumber 0
                  then removeMobileKitPin w
                else replaceMobileKitPin w))"

definition mobileKitDataText :: "platform \<Rightarrow> MobileKitManager \<Rightarrow> jserror + string" where
  "mobileKitDataText P mk =
     joinResults
       [Inr ''Latitude: '', toFixedOf P (mk_latitude mk) 6,
        Inr ''\<newline>Longitude: '', toFixedOf P (mk_longitude mk) 6,
        Inr ''\<newline>Horizontal Accuracy: '', toFixedOf P (mk_horizontalAccuracy mk) 0, Inr ''m'',
        Inr ''\<newline>Altitude: '', toFixedOf P (mk_altitude mk) 0, Inr ''m'',
        Inr ''\<newline>Vertical Accuracy: '', toFixedOf P (mk_verticalAccuracy mk) 0, Inr ''m'']"

definition lightGrey :: vec4 where
  "lightGrey = (0.5, 0.5, 0.5, 1)"

definition white :: vec4 where
  "white = (1, 1, 1, 1)"

definition updateMobileKitText :: "platform \<Rightarrow> step" where
  "updateMobileKitText P w =
     (let fd = floatingDetailsUIContentManager w; mk = mobileKitManager w in
      if isEditor P then
        seqAll [setText (mobileKitText fd) ''Mobile Kit unavailable in editor'',
                setInactive (startMobileKitButton fd) True,
                setTextFillColor (startMobileKitButtonText fd) lightGrey,
                removeMobileKitPin] w
      else (case mobileKitManagerSceneObject fd of
              None \<Rightarrow> throw TypeError w
            | Some so \<Rightarrow>
                if \<not> enabled w so then
                  seqAll [setText (mobileKitText fd) ''Mobile Kit available on device'',
                          setInactive (startMobileKitButton fd) False,
                          setTextFillColor (startMobileKitButtonText fd) white,
                          removeMobileKitPin] w
                else if \<not> fd_mobileKitManager fd then throw TypeError w
                else if mk_latitude mk = JNumber 0 \<and> mk_longitude mk = JNumber 0 then
                  seqAll [setText (mobileKitText fd) ''No Mobile Kit data'',
                          setInactive (startMobileKitButton fd) True,
                          setTextFillColor (startMobileKitButtonText fd) lightGrey,
                          removeMobileKitPin] w
                else (case mobileKitDataText P mk of
                        Inl e \<Rightarrow> throw e w
                      | Inr s \<Rightarrow>
                          seqAll [setText (mobileKitText fd) s,
                                  setInactive (startMobileKitButton fd) False,
                                  setTextFillColor (startMobileKitButtonText fd) lightGrey,
                                  updateMobileKitPin P] w)))"

definition updateContent :: "platform \<Rightarrow> step" where
  "updateContent P =
     seqAll [updateLocationText P, updateMobileKitText P, updateMobileKitPin P]"

definition startMobileKitButtonPressed :: "platform \<Rightarrow> step" where
  "startMobileKitButtonPressed P w =
     seqAll [setEnabled (mobileKitManagerSceneObject (floatingDetailsUIContentManager w)) True,
             updateContent P] w"

section \<open>LocationManager\<close>

text \<open>The fields of the platform's GeoPosition that the code reads.\<close>

record GeoPosition =
  gp_locationSource :: string
  gp_latitude :: number
  gp_longitude :: number
  gp_horizontalAccuracy :: number
  gp_altitude :: number
  gp_verticalAccuracy :: number

definition newLocationManagerDataAvailable :: "platform \<Rightarrow> step" where
  "newLocationManagerDataAvailable P w =
     (if lm_floatingDetailsUIContentManager (locationManager w) then updateContent P w
      else skip w)"

text \<open>
  \<open>configureLocationManager\<close> creates the location service, sets its accuracy, registers
  the orientation callback, binds \<open>processGeoPosition\<close> to the DelayedCallbackEvent and
  arms the event with delay 0.
\<close>

definition configureLocationManager :: step where
  "configureLocationManager w =
     (None,
      w\<lparr>locationManager := (locationManager w)\<lparr>repeatProcessGeoPositionEvent := Some 0\<rparr>\<rparr>,
      [ResetDelayedCallback 0])"

text \<open>
  \<open>processGeoPosition\<close> hands the two callbacks to \<open>getCurrentPosition\<close>, which returns at
  once (the request is asynchronous), and then arms the event with delay 1.
\<close>

definition processGeoPosition :: step where
  "processGeoPosition w =
     (None,
      w\<lparr>locationManager := (locationManager w)
           \<lparr>pendingPositionRequests := Suc (pendingPositionRequests (locationManager w)),
            repeatProcessGeoPositionEvent := Some 1\<rparr>\<rparr>,
      [GetCurrentPosition, ResetDelayedCallback 1])"

text \<open>The success callback of \<open>getCurrentPosition\<close>.\<close>

definition storeGeoPosition :: "GeoPosition \<Rightarrow> step" where
  "storeGeoPosition geoPosition w =
     (None,
      w\<lparr>locationManager := (locationManager w)
           \<lparr>locationSource := gp_locationSource geoPosition,
            lm_latitude := gp_latitude geoPosition,
            lm_longitude := gp_longitude geoPosition,
            lm_horizontalAccuracy := gp_horizontalAccuracy geoPosition,
            lm_altitude := gp_altitude geoPosition,
            lm_verticalAccuracy := gp_verticalAccuracy geoPosition\<rparr>\<rparr>,
      [])"

definition onGeoPosition :: "platform \<Rightarrow> GeoPosition \<Rightarrow> step" where
  "onGeoPosition P geoPosition =
     andThen (storeGeoPosition geoPosition) (newLocationManagerDataAvailable P)"

text \<open>The error callback of \<open>getCurrentPosition\<close>.\<close>

definition onGeoPositionError :: "string \<Rightarrow> step" where
  "onGeoPositionError error = print (''processGeoPosition() error: '' @ error)"

definition processNorthAlignedOrientationUpdate :: "platform \<Rightarrow> quat \<Rightarrow> step" where
  "processNorthAlignedOrientationUpdate P northAlignedOrientationQuaternion w =
     (let h = getNorthAlignedHeading P northAlignedOrientationQuaternion;
          h' = (if isEditor P then - h else h)
      in newLocationManagerDataAvailable P
           (w\<lparr>locationManager := (locationManager w)\<lparr>heading := h'\<rparr>\<rparr>))"

definition getShortLocationSource :: "string \<Rightarrow> string" where
  "getShortLocationSource source =
     (if source = ''NOT_AVAILABLE'' then ''Not available''
      else if source = ''GNSS_RECEIVER'' then ''GNSS / GPS''
      else if source = ''WIFI_POSITIONING_SYSTEM'' then ''WiFi''
      else if source = ''FUSED_LOCATION'' then ''Fused''
      else if source = [] then ''Unknown''
      else ''Unknown'')"

section \<open>MobileKitManager\<close>

text \<open>
  \<open>locationData.key\<close> on what \<open>JSON.parse\<close> returned: reading a property of \<open>null\<close> throws
  a TypeError; an object gives the value under the key or \<open>undefined\<close> (here \<open>None\<close>); a
  number, a string, a boolean and an array have none of the five keys.
\<close>

fun getProperty :: "json \<Rightarrow> string \<Rightarrow> jserror + json option" where
  "getProperty JNull key = Inl TypeError"
| "getProperty (JObject kvs) key = Inr (map_of kvs key)"
| "getProperty v key = Inr None"

text \<open>\<open>if (locationData.key !== undefined) { this.field = locationData.key; }\<close>\<close>

definition storeIfDefined ::
  "json \<Rightarrow> string \<Rightarrow> (json \<Rightarrow> MobileKitManager \<Rightarrow> MobileKitManager) \<Rightarrow> step" where
  "storeIfDefined locationData key store w =
     (case getProperty locationData key of
        Inl e \<Rightarrow> throw e w
      | Inr None \<Rightarrow> skip w
      | Inr (Some v) \<Rightarrow> (None, w\<lparr>mobileKitManager := store v (mobileKitManager w)\<rparr>, []))"

definition newMobileKitDataAvailable :: "platform \<Rightarrow> step" where
  "newMobileKitDataAvailable P w =
     (if mk_floatingDetailsUIContentManager (mobileKitManager w) then updateContent P w
      else throw TypeError w)"

text \<open>The body of the \<open>try\<close> in the subscription's callback.\<close>

definition parseAndStore :: "platform \<Rightarrow> string \<Rightarrow> step" where
  "parseAndStore P response w =
     (case JSON_parse P response of
        Inl e \<Rightarrow> throw e w
      | Inr locationData \<Rightarrow>
          seqAll [storeIfDefined locationData ''latitude'' (\<lambda>v mk. mk\<lparr>mk_latitude := v\<rparr>),
                  storeIfDefined locationData ''longitude'' (\<lambda>v mk. mk\<lparr>mk_longitude := v\<rparr>),
                  storeIfDefined locationData ''horizontal_accuracy''
                    (\<lambda>v mk. mk\<lparr>mk_horizontalAccuracy := v\<rparr>),
                  storeIfDefined locationData ''altitude'' (\<lambda>v mk. mk\<lparr>mk_altitude := v\<rparr>),
                  storeIfDefined locationData ''vertical_accuracy''
                    (\<lambda>v mk. mk\<lparr>mk_verticalAccuracy := v\<rparr>),
                  newMobileKitDataAvailable P] w)"

text \<open>The callback that \<open>startGPSLocationSubscription\<close> adds to the subscription.\<close>

definition onGPSLocationResponse :: "platform \<Rightarrow> string \<Rightarrow> step" where
  "onGPSLocationResponse P response =
     andThen
       (print (''startGPSLocationSubscription() - GPS Location subscription response: '' @ response))
       (tryCatch (parseAndStore P response)
          (\<lambda>error. print (''startGPSLocationSubscription() - Error parsing GPS location data: ''
                            @ errorString error)))"

section \<open>HandLockedUIContentManager\<close>

definition disableAllGPSStatusImages :: step where
  "disableAllGPSStatusImages w =
     (let hl = handLockedUIContentManager w in
      seqAll
        [if gpsStatusWhiteImage hl \<noteq> None then setEnabled (gpsStatusWhiteImage hl) False else skip,
         if gpsStatusRedImage hl \<noteq> None then setEnabled (gpsStatusRedImage hl) False else skip,
         if gpsStatusBlueImage hl \<noteq> None then setEnabled (gpsStatusBlueImage hl) False else skip,
         if gpsStatusYellowImage hl \<noteq> None then setEnabled (gpsStatusYellowImage hl) False else skip,
         if gpsStatusGreenImage hl \<noteq> None then setEnabled (gpsStatusGreenImage hl) False else skip]
        w)"

definition getGPSStatusImage :: "HandLockedUIContentManager \<Rightarrow> string \<Rightarrow> ref option" where
  "getGPSStatusImage hl source =
     (if source = [] then gpsStatusWhiteImage hl
      else if source = ''NOT_AVAILABLE'' then gpsStatusRedImage hl
      else if source = ''GNSS_RECEIVER'' then gpsStatusBlueImage hl
      else if source = ''WIFI_POSITIONING_SYSTEM'' then gpsStatusYellowImage hl
      else if source = ''FUSED_LOCATION'' then gpsStatusGreenImage hl
      else gpsStatusWhiteImage hl)"

definition updateGPSStatusIndicator :: step where
  "updateGPSStatusIndicator w =
     (let hl = handLockedUIContentManager w in
      if \<not> hl_locationManager hl then skip w
      else
        (let currentLocationSource = locationSource (locationManager w) in
         if currentLocationSource \<noteq> lastLocationSource hl then
           seqAll
             [\<lambda>w. (None,
                    w\<lparr>handLockedUIContentManager :=
                        (handLockedUIContentManager w)
                          \<lparr>lastLocationSource := currentLocationSource\<rparr>\<rparr>,
                    []),
              disableAllGPSStatusImages,
              (let targetImage = getGPSStatusImage hl currentLocationSource in
               if targetImage \<noteq> None then setEnabled targetImage True
               else print (''updateGPSStatusIndicator() - Warning: No image found for GPS status: ''
                           @ currentLocationSource))] w
         else skip w))"

definition updateLocationTextElements :: "platform \<Rightarrow> step" where
  "updateLocationTextElements P w =
     (let hl = handLockedUIContentManager w; lm = locationManager w in
      if \<not> hl_locationManager hl then skip w
      else
        seqAll
          [if sourceValueText hl \<noteq> None
           then setText (sourceValueText hl) (getShortLocationSource (locationSource lm)) else skip,
           if accuracyValueText hl \<noteq> None
           then setText (accuracyValueText hl) (toFixed P (lm_horizontalAccuracy lm) 0 @ ''m'')
           else skip,
           if headingValueText hl \<noteq> None
           then setText (headingValueText hl) (toFixed P (heading lm) 0 @ degreeSuffix)
           else skip] w)"

text \<open>The rotation set is \<open>quat.angleAxis(headingRadians, vec3.forward())\<close>, kept as its angle.\<close>

definition updateCompassRotation :: step where
  "updateCompassRotation w =
     (let hl = handLockedUIContentManager w in
      if \<not> hl_locationManager hl \<or> compassImage hl = None then skip w
      else
        (let headingRadians = heading (locationManager w) * pi / 180
         in setLocalRotation (compassImage hl) headingRadians w))"

definition onUpdate :: "platform \<Rightarrow> step" where
  "onUpdate P = seqAll [updateGPSStatusIndicator, updateLocationTextElements P, updateCompassRotation]"

section \<open>The presentation managers\<close>

text \<open>The engine's arithmetic on \<open>vec3\<close>: \<open>add\<close>, \<open>sub\<close>, \<open>uniformScale\<close> and \<open>vec3.lerp\<close>.\<close>

fun vec3_add :: "vec3 \<Rightarrow> vec3 \<Rightarrow> vec3" where
  "vec3_add (x, y, z) (x', y', z') = (x + x', y + y', z + z')"

fun vec3_sub :: "vec3 \<Rightarrow> vec3 \<Rightarrow> vec3" where
  "vec3_sub (x, y, z) (x', y', z') = (x - x', y - y', z - z')"

fun vec3_uniformScale :: "vec3 \<Rightarrow> number \<Rightarrow> vec3" where
  "vec3_uniformScale (x, y, z) k = (x * k, y * k, z * k)"

definition vec3_lerp :: "vec3 \<Rightarrow> vec3 \<Rightarrow> number \<Rightarrow> vec3" where
  "vec3_lerp a b t = vec3_add a (vec3_uniformScale (vec3_sub b a) t)"

definition vec3_up :: vec3 where
  "vec3_up = (0, 1, 0)"

text \<open>
  What the hand tracking and the camera provider report in a frame: \<open>leftHand.isTracked()\<close>,
  \<open>leftHand.isFacingCamera()\<close>, the position and the right vector of
  \<open>leftHand.pinkyKnuckle\<close>, and \<open>mCamera.getWorldPosition()\<close>.
\<close>

record tracking =
  isTracked :: bool
  isFacingCamera :: bool
  pinkyKnucklePosition :: vec3
  pinkyKnuckleRight :: vec3
  cameraWorldPosition :: vec3

definition positionUI :: "platform \<Rightarrow> tracking \<Rightarrow> step" where
  "positionUI P tr w =
     (case handLockedUIBackPlate (handLockedUIPresentationManager w) of
        None \<Rightarrow> print ''positionUI() - Warning: handLockedUIBackPlate is not assigned.'' w
      | Some plate \<Rightarrow>
          (let currentWorldPosition = worldPosition w plate;
               targetWorldPosition =
                 (if isEditor P then (0, 0, - 100)
                  else vec3_add (pinkyKnucklePosition tr)
                         (vec3_uniformScale (pinkyKnuckleRight tr) 7));
               lerpedTargetWorldPosition = vec3_lerp currentWorldPosition targetWorldPosition 0.2;
               directionToCamera =
                 vec3_normalize P (vec3_sub (cameraWorldPosition tr) lerpedTargetWorldPosition);
               rotation = quat_lookAt P directionToCamera vec3_up
           in (None,
               w\<lparr>worldPosition := (worldPosition w)(plate := lerpedTargetWorldPosition),
                 worldRotation := (worldRotation w)(plate := rotation)\<rparr>,
               [SetWorldPosition plate lerpedTargetWorldPosition,
                SetWorldRotation plate rotation])))"

definition checkForUIActivation :: "platform \<Rightarrow> tracking \<Rightarrow> step" where
  "checkForUIActivation P tr w =
     (let plate = handLockedUIBackPlate (handLockedUIPresentationManager w) in
      if isEditor P then setEnabled plate True w
      else if isTracked tr \<and> isFacingCamera tr then setEnabled plate True w
      else setEnabled plate False w)"

text \<open>The frame callback of the HandLockedUIPresentationManager (its \<open>onUpdate\<close>).\<close>

definition presentationOnUpdate :: "platform \<Rightarrow> tracking \<Rightarrow> step" where
  "presentationOnUpdate P tr = seqAll [positionUI P tr, checkForUIActivation P tr]"

definition closeButtonPressed :: step where
  "closeButtonPressed w =
     (let fp = floatingDetailsUIPresentationManager w in
      if fp_floatingDetailsUIFrame fp \<noteq> None then setEnabled (fp_floatingDetailsUIFrame fp) False w
      else print ''closeButtonPressed() - Warning: floatingDetailsUIFrame is not assigned.'' w)"

definition detailsButtonPressed :: "platform \<Rightarrow> step" where
  "detailsButtonPressed P w =
     (let hp = handLockedUIPresentationManager w in
      if hp_floatingDetailsUIFrame hp \<noteq> None then
        seqAll [setEnabled (hp_floatingDetailsUIFrame hp) True,
                if hp_floatingDetailsUIContentManager hp then updateContent P
                else throw TypeError] w
      else print ''detailsButtonPressed() - Warning: floatingDetailsUIFrame is not assigned.'' w)"

section \<open>The platform's events\<close>

text \<open>
  The platform calls the components: the DelayedCallbackEvent fires once its delay has
  passed, whether or not a position request is still pending (nothing in the code cancels
  it or ties it to a callback); a pending position request ends in one of its two
  callbacks; the orientation, the frame tick, an inbound message and the buttons come when
  they come. An exception that leaves a callback ends that callback only.
\<close>

datatype event =
    LocationManagerStart
  | DelayedCallbackFires
  | PositionArrives GeoPosition
  | PositionFails string
  | OrientationUpdate quat
  | FrameUpdate
  | FloatingDetailsStart
  | GPSLocationResponse string
  | StartMobileKitButton
  | DetailsButton
  | CloseButton

text \<open>The platform's part of an event: a pending request is over, the timer has fired.\<close>

definition positionRequestEnds :: step where
  "positionRequestEnds w =
     (None,
      w\<lparr>locationManager := (locationManager w)
           \<lparr>pendingPositionRequests := pendingPositionRequests (locationManager w) - 1\<rparr>\<rparr>,
      [])"

definition delayedCallbackDisarmed :: step where
  "delayedCallbackDisarmed w =
     (None,
      w\<lparr>locationManager := (locationManager w)\<lparr>repeatProcessGeoPositionEvent := None\<rparr>\<rparr>,
      [])"

fun dispatch :: "platform \<Rightarrow> event \<Rightarrow> step" where
  "dispatch P LocationManagerStart w = configureLocationManager w"
| "dispatch P DelayedCallbackFires w =
     (if repeatProcessGeoPositionEvent (locationManager w) = None then skip w
      else andThen delayedCallbackDisarmed processGeoPosition w)"
| "dispatch P (PositionArrives geoPosition) w =
     (if pendingPositionRequests (locationManager w) = 0 then skip w
      else andThen positionRequestEnds (onGeoPosition P geoPosition) w)"
| "dispatch P (PositionFails error) w =
     (if pendingPositionRequests (locationManager w) = 0 then skip w
      else andThen positionRequestEnds (onGeoPositionError error) w)"
| "dispatch P (OrientationUpdate q) w = processNorthAlignedOrientationUpdate P q w"
| "dispatch P FrameUpdate w = onUpdate P w"
| "dispatch P FloatingDetailsStart w = updateContent P w"
| "dispatch P (GPSLocationResponse response) w = onGPSLocationResponse P response w"
| "dispatch P StartMobileKitButton w = startMobileKitButtonPressed P w"
| "dispatch P DetailsButton w = detailsButtonPressed P w"
| "dispatch P CloseButton w = closeButtonPressed w"

fun run :: "platform \<Rightarrow> event list \<Rightarrow> world \<Rightarrow> world \<times> effect list" where
  "run P [] w = (w, [])"
| "run P (ev # evs) w =
     (case dispatch P ev w of
        (r, w1, l1) \<Rightarrow> (case run P evs w1 of (w2, l2) \<Rightarrow> (w2, l1 @ l2)))"

section \<open>Vocabulary of the properties\<close>

text \<open>A write of a scene object's visibility (\<open>sceneObject.enabled = ...\<close>).\<close>

fun isVisibilityWrite :: "effect \<Rightarrow> bool" where
  "isVisibilityWrite (SetEnabled i b) = True"
| "isVisibilityWrite e = False"

definition visibilityWrites :: "effect list \<Rightarrow> effect list" where
  "visibilityWrites l = filter isVisibilityWrite l"

text \<open>A start of the DelayedCallbackEvent's timer, and the request of a position.\<close>

fun isTimerStart :: "effect \<Rightarrow> bool" where
  "isTimerStart (ResetDelayedCallback d) = True"
| "isTimerStart e = False"

text \<open>The status icons that are configured: the scene objects of the assigned images.\<close>

definition statusImages :: "HandLockedUIContentManager \<Rightarrow> ref list" where
  "statusImages hl =
     concat (map (\<lambda>r. case r of None \<Rightarrow> [] | Some i \<Rightarrow> [i])
       [gpsStatusWhiteImage hl, gpsStatusRedImage hl, gpsStatusBlueImage hl,
        gpsStatusYellowImage hl, gpsStatusGreenImage hl])"

text \<open>The writes of the texts that are assigned, in the order given.\<close>

definition textWrites :: "(ref option \<times> string) list \<Rightarrow> effect list" where
  "textWrites ts = concat (map (\<lambda>(r, s). case r of None \<Rightarrow> [] | Some i \<Rightarrow> [SetText i s]) ts)"

text \<open>The status icons that are visible.\<close>

definition enabledStatusImages :: "world \<Rightarrow> ref list" where
  "enabledStatusImages w =
     remdups (filter (enabled w) (statusImages (handLockedUIContentManager w)))"

text \<open>The display state of the secondary source says "no data".\<close>

definition noMobileKitData :: "platform \<Rightarrow> world \<Rightarrow> ref \<Rightarrow> bool" where
  "noMobileKitData P w so \<longleftrightarrow>
     isEditor P \<or> \<not> enabled w so \<or>
     (mk_latitude (mobileKitManager w) = JNumber 0 \<and> mk_longitude (mobileKitManager w) = JNumber 0)"

text \<open>The pins on the map surface are exactly the pin the content manager holds, if any.\<close>

definition pinsAsHeld :: "world \<Rightarrow> bool" where
  "pinsAsHeld w \<longleftrightarrow>
     mapPins (mapObject w) =
       (case mobileKitPin (floatingDetailsUIContentManager w) of None \<Rightarrow> [] | Some pin \<Rightarrow> [pin])"

text \<open>
  The components as constructed: the inputs as the Inspector assigned them, every other
  field at its initialiser.
\<close>

definition newLocationManager :: "LocationManager \<Rightarrow> LocationManager" where
  "newLocationManager inputs =
     inputs\<lparr>locationSource := [], lm_latitude := 0, lm_longitude := 0,
            lm_horizontalAccuracy := 0, lm_altitude := 0, lm_verticalAccuracy := 0, heading := 0,
            pendingPositionRequests := 0, repeatProcessGeoPositionEvent := None\<rparr>"

definition newMobileKitManager :: "MobileKitManager \<Rightarrow> MobileKitManager" where
  "newMobileKitManager inputs =
     inputs\<lparr>mk_latitude := JNumber 0, mk_longitude := JNumber 0,
            mk_horizontalAccuracy := JNumber 0, mk_altitude := JNumber 0,
            mk_verticalAccuracy := JNumber 0\<rparr>"

definition newHandLockedUIContentManager ::
  "HandLockedUIContentManager \<Rightarrow> HandLockedUIContentManager" where
  "newHandLockedUIContentManager inputs = inputs\<lparr>lastLocationSource := []\<rparr>"

definition newFloatingDetailsUIContentManager ::
  "FloatingDetailsUIContentManager \<Rightarrow> FloatingDetailsUIContentManager" where
  "newFloatingDetailsUIContentManager inputs = inputs\<lparr>mobileKitPin := None\<rparr>"

text \<open>The world at component start: every component is as constructed.\<close>

definition atComponentStart :: "world \<Rightarrow> bool" where
  "atComponentStart w \<longleftrightarrow>
     locationManager w = newLocationManager (locationManager w) \<and>
     mobileKitManager w = newMobileKitManager (mobileKitManager w) \<and>
     handLockedUIContentManager w = newHandLockedUIContentManager (handLockedUIContentManager w) \<and>
     floatingDetailsUIContentManager w =
       newFloatingDetailsUIContentManager (floatingDetailsUIContentManager w)"

text \<open>No source label has been seen: the cache and the label are both the empty string.\<close>

definition noSourceYet :: "world \<Rightarrow> bool" where
  "noSourceYet w \<longleftrightarrow>
     lastLocationSource (handLockedUIContentManager w) = [] \<and>
     locationSource (locationManager w) = []"

text \<open>An event that does not report a source label other than the empty string.\<close>

fun reportsNoSource :: "event \<Rightarrow> bool" where
  "reportsNoSource (PositionArrives geoPosition) = (gp_locationSource geoPosition = [])"
| "reportsNoSource ev = True"

section \<open>An example scene\<close>

text \<open>
  The formatter of the examples: \<open>toFixed\<close> for a number below 10^21, which rounds the
  absolute value half up at the digit asked for.
\<close>

fun decimal :: "nat \<Rightarrow> string" where
  "decimal n =
     (if n < 10 then [''0123456789'' ! n]
      else decimal (n div 10) @ [''0123456789'' ! (n mod 10)])"

definition toFixedDecimal :: "number \<Rightarrow> nat \<Rightarrow> string" where
  "toFixedDecimal x n =
     (let k = nat \<lfloor>\<bar>x\<bar> * 10 ^ n + 1 / 2\<rfloor>;
          ds = decimal k;
          padded = replicate (Suc n - length ds) CHR ''0'' @ ds;
          whole = take (length padded - n) padded;
          frac = drop (length padded - n) padded
      in (if x < 0 then ''-'' else []) @ whole @ (if n = 0 then [] else CHR ''.'' # frac))"

text \<open>The two messages of the scenario, and what \<open>JSON.parse\<close> makes of them.\<close>

definition firstMessage :: string where
  \<open>firstMessage = ''{"latitude":52.2175,"longitude":5.1696,"horizontal_accuracy":9.08}''\<close>

definition secondMessage :: string where
  \<open>secondMessage = ''{"altitude":15.31}''\<close>

definition exampleParse :: "string \<Rightarrow> jserror + json" where
  "exampleParse s =
     (if s = firstMessage then
        Inr (JObject [(''latitude'', JNumber 52.2175), (''longitude'', JNumber 5.1696),
                      (''horizontal_accuracy'', JNumber 9.08)])
      else if s = secondMessage then Inr (JObject [(''altitude'', JNumber 15.31)])
      else if s = ''null'' then Inr JNull
      else Inl (SyntaxError ''Unexpected token''))"

definition examplePlatform :: "bool \<Rightarrow> platform" where
  "examplePlatform editor =
     \<lparr>isEditor = editor, toFixed = toFixedDecimal, JSON_parse = exampleParse,
      getNorthAlignedHeading = (\<lambda>q. 0),
      vec3_normalize = (\<lambda>v. v), quat_lookAt = (\<lambda>forward up. (0, 0, 0, 1))\<rparr>"

text \<open>
  A scene with every input assigned, each to an object of its own, the components' fields
  at their initialisers, no pin on the map and the scene object of the MobileKitManager
  disabled.
\<close>

definition exampleWorld :: world where
  "exampleWorld =
     \<lparr>locationManager =
        \<lparr>lm_floatingDetailsUIContentManager = True, locationSource = [],
         lm_latitude = 0, lm_longitude = 0, lm_horizontalAccuracy = 0, lm_altitude = 0,
         lm_verticalAccuracy = 0, heading = 0,
         pendingPositionRequests = 0, repeatProcessGeoPositionEvent = None\<rparr>,
      mobileKitManager =
        \<lparr>mk_floatingDetailsUIContentManager = True,
         mk_latitude = JNumber 0, mk_longitude = JNumber 0, mk_horizontalAccuracy = JNumber 0,
         mk_altitude = JNumber 0, mk_verticalAccuracy = JNumber 0\<rparr>,
      handLockedUIContentManager =
        \<lparr>hl_locationManager = True,
         gpsStatusWhiteImage = Some 1, gpsStatusRedImage = Some 2, gpsStatusBlueImage = Some 3,
         gpsStatusYellowImage = Some 4, gpsStatusGreenImage = Some 5,
         sourceValueText = Some 6, accuracyValueText = Some 7, compassImage = Some 8,
         headingValueText = Some 9, lastLocationSource = []\<rparr>,
      floatingDetailsUIContentManager =
        \<lparr>mapComponent = True, fd_locationManager = True, locationDataText = Some 10,
         mobileKitManagerSceneObject = Some 11, fd_mobileKitManager = True,
         startMobileKitButton = Some 12, startMobileKitButtonText = Some 13,
         mobileKitText = Some 14, mobileKitPin = None\<rparr>,
      floatingDetailsUIPresentationManager = \<lparr>fp_floatingDetailsUIFrame = Some 15\<rparr>,
      handLockedUIPresentationManager =
        \<lparr>handLockedUIBackPlate = Some 16, hp_floatingDetailsUIContentManager = True,
         hp_floatingDetailsUIFrame = Some 15\<rparr>,
      mapObject = \<lparr>mapPins = [], nextPinId = 0\<rparr>,
      enabled = (\<lambda>i. False),
      textString = (\<lambda>i. []),
      textFillColor = (\<lambda>i. white),
      inactive = (\<lambda>i. False),
      localRotation = (\<lambda>i. 0),
      worldPosition = (\<lambda>i. (0, 0, 0)),
      worldRotation = (\<lambda>i. (0, 0, 0, 1))\<rparr>"

text \<open>The example scene with the MobileKitManager started and a reading received.\<close>

definition exampleWorldWithReading :: world where
  "exampleWorldWithReading =
     exampleWorld
       \<lparr>mobileKitManager :=
          \<lparr>mk_floatingDetailsUIContentManager = True,
           mk_latitude = JNumber 52.2175, mk_longitude = JNumber 5.1696,
           mk_horizontalAccuracy = JNumber 9.08, mk_altitude = JNumber 15.31,
           mk_verticalAccuracy = JNumber 30\<rparr>,
        enabled := (\<lambda>i. i = 11)\<rparr>"

text \<open>A position of the location service, as a successful request reports it.\<close>

definition examplePosition :: GeoPosition where
  "examplePosition =
     \<lparr>gp_locationSource = ''GNSS_RECEIVER'', gp_latitude = 52.2175, gp_longitude = 5.1696,
      gp_horizontalAccuracy = 9.08, gp_altitude = 15.31, gp_verticalAccuracy = 30\<rparr>"

text \<open>The example scene once the location service has reported the position.\<close>

definition exampleWorldWithFix :: world where
  "exampleWorldWithFix =
     exampleWorld
       \<lparr>locationManager :=
          \<lparr>lm_floatingDetailsUIContentManager = True, locationSource = ''GNSS_RECEIVER'',
           lm_latitude = 52.2175, lm_longitude = 5.1696, lm_horizontalAccuracy = 9.08,
           lm_altitude = 15.31, lm_verticalAccuracy = 30, heading = 0,
           pendingPositionRequests = 0, repeatProcessGeoPositionEvent = Some 1\<rparr>\<rparr>"

text \<open>
  The same scene with the white icon showing and the image of the GNSS status (blue) not
  assigned.
\<close>

definition exampleWorldWithoutBlue :: world where
  "exampleWorldWithoutBlue =
     exampleWorldWithFix
       \<lparr>handLockedUIContentManager :=
          (handLockedUIContentManager exampleWorldWithFix)\<lparr>gpsStatusBlueImage := None\<rparr>,
        enabled := (\<lambda>i. i = 1)\<rparr>"

text \<open>A position that carries no source label.\<close>

definition positionWithoutSource :: GeoPosition where
  "positionWithoutSource =
     \<lparr>gp_locationSource = [], gp_latitude = 0, gp_longitude = 0,
      gp_horizontalAccuracy = 0, gp_altitude = 0, gp_verticalAccuracy = 0\<rparr>"

text \<open>The example scene with a reading received and no map component assigned.\<close>

definition exampleWorldWithoutMap :: world where
  "exampleWorldWithoutMap =
     exampleWorldWithReading
       \<lparr>floatingDetailsUIContentManager :=
          (floatingDetailsUIContentManager exampleWorldWithReading)\<lparr>mapComponent := False\<rparr>\<rparr>"

text \<open>Events of a session in which no position with a source label arrives.\<close>

definition eventsWithoutSource :: "event list" where
  "eventsWithoutSource =
     [LocationManagerStart, FloatingDetailsStart, FrameUpdate, DelayedCallbackFires,
      PositionArrives positionWithoutSource, OrientationUpdate (0, 0, 0, 1), FrameUpdate,
      DelayedCallbackFires, PositionFails ''Location permission denied'', DetailsButton,
      StartMobileKitButton, GPSLocationResponse firstMessage, FrameUpdate, CloseButton]"

text \<open>The example scene with the MobileKitManager started, a pin on the map and the
  coordinates at (0, 0).\<close>

definition exampleWorldAtOrigin :: world where
  "exampleWorldAtOrigin =
     exampleWorld
       \<lparr>floatingDetailsUIContentManager :=
          (floatingDetailsUIContentManager exampleWorld)
            \<lparr>mobileKitPin :=
               Some \<lparr>pinId = 0, pinLongitude = JNumber 5.1696, pinLatitude = JNumber 52.2175\<rparr>\<rparr>,
        mapObject :=
          \<lparr>mapPins = [\<lparr>pinId = 0, pinLongitude = JNumber 5.1696, pinLatitude = JNumber 52.2175\<rparr>],
           nextPinId = 1\<rparr>,
        enabled := (\<lambda>i. i = 11)\<rparr>"

text \<open>The example scene with a reading received and some inputs not assigned.\<close>

definition exampleWorldUnwired :: world where
  "exampleWorldUnwired =
     exampleWorldWithReading
       \<lparr>locationManager :=
          (locationManager exampleWorldWithReading)\<lparr>lm_floatingDetailsUIContentManager := False\<rparr>,
        mobileKitManager :=
          (mobileKitManager exampleWorldWithReading)\<lparr>mk_floatingDetailsUIContentManager := False\<rparr>,
        handLockedUIContentManager :=
          (handLockedUIContentManager exampleWorldWithReading)
            \<lparr>hl_locationManager := False, compassImage := None\<rparr>,
        floatingDetailsUIContentManager :=
          (floatingDetailsUIContentManager exampleWorldWithReading)
            \<lparr>mapComponent := False, locationDataText := None, mobileKitText := None\<rparr>,
        floatingDetailsUIPresentationManager := \<lparr>fp_floatingDetailsUIFrame = None\<rparr>,
        handLockedUIPresentationManager :=
          \<lparr>handLockedUIBackPlate = None, hp_floatingDetailsUIContentManager = True,
           hp_floatingDetailsUIFrame = None\<rparr>\<rparr>"


text \<open>
  The example scene with a position reported, the image of the GNSS status, the text of
  the accuracy and the compass image not assigned.
\<close>

definition exampleWorldPartlyWired :: world where
  "exampleWorldPartlyWired =
     exampleWorldWithFix
       \<lparr>handLockedUIContentManager :=
          (handLockedUIContentManager exampleWorldWithFix)
            \<lparr>gpsStatusBlueImage := None, accuracyValueText := None, compassImage := None\<rparr>\<rparr>"

text \<open>What the hand tracking reports in a frame with the left hand in view.\<close>

definition exampleTracking :: tracking where
  "exampleTracking =
     \<lparr>isTracked = True, isFacingCamera = True, pinkyKnucklePosition = (10, 0, - 40),
      pinkyKnuckleRight = (1, 0, 0), cameraWorldPosition = (0, 0, 0)\<rparr>"

text \<open>The example scene as it starts, with the text of the secondary source not assigned.\<close>

definition exampleWorldWithoutMobileKitText :: world where
  "exampleWorldWithoutMobileKitText =
     exampleWorld
       \<lparr>floatingDetailsUIContentManager :=
          (floatingDetailsUIContentManager exampleWorld)\<lparr>mobileKitText := None\<rparr>\<rparr>"

text \<open>
  The example scene with the MobileKitManager started, a pin on the map, the coordinates at
  (0, 0) and the text of the button not assigned.
\<close>

definition exampleWorldAtOriginWithoutButtonText :: world where
  "exampleWorldAtOriginWithoutButtonText =
     exampleWorldAtOrigin
       \<lparr>floatingDetailsUIContentManager :=
          (floatingDetailsUIContentManager exampleWorldAtOrigin)
            \<lparr>startMobileKitButtonText := None\<rparr>\<rparr>"

text \<open>The location text of the example scene as it starts.\<close>

definition locationTextAtStart :: string where
  "locationTextAtStart =
     ''Source: \<newline>Latitude: 0.000000\<newline>Longitude: 0.000000\<newline>Horizontal Accuracy: 0m'' @
     ''\<newline>Altitude: 0m\<newline>Vertical Accuracy: 0m\<newline>Heading: 0'' @ degreeSuffix"
text \<open>A statement keeps a part of the world when the part is the same after it, thrown or not.\<close>

definition keeps :: "(world \<Rightarrow> 'a) \<Rightarrow> step \<Rightarrow> bool" where
  "keeps g f \<longleftrightarrow> (\<forall>w. g (after (f w)) = g w)"

text \<open>A statement emits no effect of a kind when none of its effects is of the kind.\<close>

definition emitsNo :: "(effect \<Rightarrow> bool) \<Rightarrow> step \<Rightarrow> bool" where
  "emitsNo k f \<longleftrightarrow> (\<forall>w. filter k (effects (f w)) = [])"

text \<open>A statement preserves a property of the world when the property holds after it
  whenever it held before, thrown or not.\<close>

definition preserves :: "(world \<Rightarrow> bool) \<Rightarrow> step \<Rightarrow> bool" where
  "preserves I f \<longleftrightarrow> (\<forall>w. I w \<longrightarrow> I (after (f w)))"


section \<open>Reading the result of a statement\<close>

lemma result_parts [simp]:
  "outcome (a, b, c) = a" "after (a, b, c) = b" "effects (a, b, c) = c"
  by (simp_all add: outcome_def after_def effects_def)

lemma result_eq_iff: "r = (a, b, c) \<longleftrightarrow> outcome r = a \<and> after r = b \<and> effects r = c"
  by (cases r) auto

lemma seqAll_Nil: "seqAll [] = skip"
  by (simp add: seqAll_def)

lemma seqAll_Cons: "seqAll (f # fs) = andThen f (seqAll fs)"
  by (simp add: seqAll_def)

lemma outcome_andThen:
  "outcome (andThen f g w) = (if outcome (f w) = None then outcome (g (after (f w))) else outcome (f w))"
  by (simp add: andThen_def split: prod.splits option.splits)

lemma after_andThen:
  "after (andThen f g w) = (if outcome (f w) = None then after (g (after (f w))) else after (f w))"
  by (simp add: andThen_def split: prod.splits option.splits)

lemma effects_andThen:
  "effects (andThen f g w) =
     (if outcome (f w) = None then effects (f w) @ effects (g (after (f w))) else effects (f w))"
  by (simp add: andThen_def split: prod.splits option.splits)

lemma outcome_tryCatch:
  "outcome (tryCatch f h w) =
     (case outcome (f w) of None \<Rightarrow> None | Some e \<Rightarrow> outcome (h e (after (f w))))"
  by (simp add: tryCatch_def split: prod.splits option.splits)

lemma after_tryCatch:
  "after (tryCatch f h w) =
     (case outcome (f w) of None \<Rightarrow> after (f w) | Some e \<Rightarrow> after (h e (after (f w))))"
  by (simp add: tryCatch_def split: prod.splits option.splits)

lemma effects_tryCatch:
  "effects (tryCatch f h w) =
     (case outcome (f w) of None \<Rightarrow> effects (f w)
      | Some e \<Rightarrow> effects (f w) @ effects (h e (after (f w))))"
  by (simp add: tryCatch_def split: prod.splits option.splits)

lemmas exec = seqAll_Nil seqAll_Cons outcome_andThen after_andThen effects_andThen
  outcome_tryCatch after_tryCatch effects_tryCatch

lemma skip_parts [simp]:
  "outcome (skip w) = None" "after (skip w) = w" "effects (skip w) = []"
  by (simp_all add: skip_def)

lemma throw_parts [simp]:
  "outcome (throw e w) = Some e" "after (throw e w) = w" "effects (throw e w) = []"
  by (simp_all add: throw_def)

lemma print_parts [simp]:
  "outcome (print s w) = None" "after (print s w) = w" "effects (print s w) = [Print s]"
  by (simp_all add: print_def)

lemma setText_parts [simp]:
  "outcome (setText r s w) = (if r = None then Some TypeError else None)"
  "after (setText None s w) = w"
  "after (setText (Some i) s w) = w\<lparr>textString := (textString w)(i := s)\<rparr>"
  "effects (setText None s w) = []"
  "effects (setText (Some i) s w) = [SetText i s]"
  by (simp_all add: setText_def split: option.splits)

lemma setInactive_parts [simp]:
  "outcome (setInactive r b w) = (if r = None then Some TypeError else None)"
  "after (setInactive None b w) = w"
  "after (setInactive (Some i) b w) = w\<lparr>inactive := (inactive w)(i := b)\<rparr>"
  "effects (setInactive None b w) = []"
  "effects (setInactive (Some i) b w) = [SetInactive i b]"
  by (simp_all add: setInactive_def split: option.splits)

lemma setTextFillColor_parts [simp]:
  "outcome (setTextFillColor r c w) = (if r = None then Some TypeError else None)"
  "after (setTextFillColor None c w) = w"
  "after (setTextFillColor (Some i) c w) = w\<lparr>textFillColor := (textFillColor w)(i := c)\<rparr>"
  "effects (setTextFillColor None c w) = []"
  "effects (setTextFillColor (Some i) c w) = [SetTextFillColor i c]"
  by (simp_all add: setTextFillColor_def split: option.splits)

lemma setEnabled_parts [simp]:
  "outcome (setEnabled r b w) = (if r = None then Some TypeError else None)"
  "after (setEnabled None b w) = w"
  "after (setEnabled (Some i) b w) = w\<lparr>enabled := (enabled w)(i := b)\<rparr>"
  "effects (setEnabled None b w) = []"
  "effects (setEnabled (Some i) b w) = [SetEnabled i b]"
  by (simp_all add: setEnabled_def split: option.splits)

lemma setLocalRotation_parts [simp]:
  "outcome (setLocalRotation r a w) = (if r = None then Some TypeError else None)"
  "after (setLocalRotation None a w) = w"
  "after (setLocalRotation (Some i) a w) = w\<lparr>localRotation := (localRotation w)(i := a)\<rparr>"
  "effects (setLocalRotation None a w) = []"
  "effects (setLocalRotation (Some i) a w) = [SetLocalRotation i a]"
  by (simp_all add: setLocalRotation_def split: option.splits)

lemma keeps_basic [simp]: "keeps g skip" "keeps g (throw e)" "keeps g (print s)"
  by (simp_all add: keeps_def)

lemma keeps_andThen [simp]: "keeps g f \<Longrightarrow> keeps g h \<Longrightarrow> keeps g (andThen f h)"
  by (simp add: keeps_def after_andThen)

lemma keeps_seqAll [simp]: "list_all (keeps g) fs \<Longrightarrow> keeps g (seqAll fs)"
  by (induction fs) (simp_all add: seqAll_Nil seqAll_Cons)

lemma keeps_tryCatch [simp]: "keeps g f \<Longrightarrow> (\<And>e. keeps g (h e)) \<Longrightarrow> keeps g (tryCatch f h)"
  by (simp add: keeps_def after_tryCatch split: option.splits)

lemma keeps_if [simp]: "keeps g f \<Longrightarrow> keeps g h \<Longrightarrow> keeps g (if c then f else h)"
  by simp

lemma kept [simp]:
  "keeps locationManager f \<Longrightarrow> locationManager (after (f w)) = locationManager w"
  "keeps mobileKitManager f \<Longrightarrow> mobileKitManager (after (f w)) = mobileKitManager w"
  "keeps handLockedUIContentManager f \<Longrightarrow>
     handLockedUIContentManager (after (f w)) = handLockedUIContentManager w"
  "keeps floatingDetailsUIContentManager f \<Longrightarrow>
     floatingDetailsUIContentManager (after (f w)) = floatingDetailsUIContentManager w"
  "keeps mapObject f \<Longrightarrow> mapObject (after (f w)) = mapObject w"
  "keeps enabled f \<Longrightarrow> enabled (after (f w)) = enabled w"
  unfolding keeps_def by simp_all

lemma keeps_setText [simp]:
  "keeps locationManager (setText r s)"
  "keeps mobileKitManager (setText r s)"
  "keeps handLockedUIContentManager (setText r s)"
  "keeps floatingDetailsUIContentManager (setText r s)"
  "keeps mapObject (setText r s)"
  "keeps enabled (setText r s)"
  unfolding keeps_def by (cases r; simp)+

lemma keeps_setInactive [simp]:
  "keeps locationManager (setInactive r b)"
  "keeps mobileKitManager (setInactive r b)"
  "keeps handLockedUIContentManager (setInactive r b)"
  "keeps floatingDetailsUIContentManager (setInactive r b)"
  "keeps mapObject (setInactive r b)"
  "keeps enabled (setInactive r b)"
  unfolding keeps_def by (cases r; simp)+

lemma keeps_setTextFillColor [simp]:
  "keeps locationManager (setTextFillColor r c)"
  "keeps mobileKitManager (setTextFillColor r c)"
  "keeps handLockedUIContentManager (setTextFillColor r c)"
  "keeps floatingDetailsUIContentManager (setTextFillColor r c)"
  "keeps mapObject (setTextFillColor r c)"
  "keeps enabled (setTextFillColor r c)"
  unfolding keeps_def by (cases r; simp)+

lemma keeps_removeMobileKitPin [simp]:
  "keeps locationManager removeMobileKitPin"
  "keeps mobileKitManager removeMobileKitPin"
  "keeps handLockedUIContentManager removeMobileKitPin"
  "keeps enabled removeMobileKitPin"
  unfolding keeps_def by (simp_all add: removeMobileKitPin_def Let_def split: option.splits)

lemma keeps_replaceMobileKitPin [simp]:
  "keeps locationManager replaceMobileKitPin"
  "keeps mobileKitManager replaceMobileKitPin"
  "keeps handLockedUIContentManager replaceMobileKitPin"
  "keeps enabled replaceMobileKitPin"
  unfolding keeps_def by (simp_all add: replaceMobileKitPin_def Let_def split: option.splits prod.splits)

lemma keeps_updateMobileKitPin [simp]:
  "keeps locationManager (updateMobileKitPin P)"
  "keeps mobileKitManager (updateMobileKitPin P)"
  "keeps handLockedUIContentManager (updateMobileKitPin P)"
  "keeps enabled (updateMobileKitPin P)"
  unfolding keeps_def by (simp_all add: updateMobileKitPin_def Let_def split: option.splits)

lemma keeps_updateLocationText [simp]:
  "keeps locationManager (updateLocationText P)"
  "keeps mobileKitManager (updateLocationText P)"
  "keeps handLockedUIContentManager (updateLocationText P)"
  "keeps floatingDetailsUIContentManager (updateLocationText P)"
  "keeps mapObject (updateLocationText P)"
  "keeps enabled (updateLocationText P)"
  unfolding keeps_def by (simp_all add: updateLocationText_def Let_def)

lemma keeps_updateMobileKitText [simp]:
  "keeps locationManager (updateMobileKitText P)"
  "keeps mobileKitManager (updateMobileKitText P)"
  "keeps handLockedUIContentManager (updateMobileKitText P)"
  "keeps enabled (updateMobileKitText P)"
  unfolding keeps_def by (simp_all add: updateMobileKitText_def Let_def split: option.splits sum.splits)

lemma keeps_updateContent [simp]:
  "keeps locationManager (updateContent P)"
  "keeps mobileKitManager (updateContent P)"
  "keeps handLockedUIContentManager (updateContent P)"
  "keeps enabled (updateContent P)"
  by (simp_all add: updateContent_def)

declare decimal.simps [simp del]

lemma emitsNo_basic [simp]: "emitsNo k skip" "emitsNo k (throw e)"
  by (simp_all add: emitsNo_def)

lemma emitsNo_print [simp]: "emitsNo isVisibilityWrite (print s)" "emitsNo isTimerStart (print s)"
  by (simp_all add: emitsNo_def)

lemma emitsNo_andThen [simp]: "emitsNo k f \<Longrightarrow> emitsNo k h \<Longrightarrow> emitsNo k (andThen f h)"
  by (simp add: emitsNo_def effects_andThen)

lemma emitsNo_seqAll [simp]: "list_all (emitsNo k) fs \<Longrightarrow> emitsNo k (seqAll fs)"
  by (induction fs) (simp_all add: seqAll_Nil seqAll_Cons)

lemma emitsNo_tryCatch [simp]:
  "emitsNo k f \<Longrightarrow> (\<And>e. emitsNo k (h e)) \<Longrightarrow> emitsNo k (tryCatch f h)"
  by (simp add: emitsNo_def effects_tryCatch split: option.splits)

lemma emitsNo_if [simp]: "emitsNo k f \<Longrightarrow> emitsNo k h \<Longrightarrow> emitsNo k (if c then f else h)"
  by simp

lemma emitted [simp]:
  "emitsNo isVisibilityWrite f \<Longrightarrow> filter isVisibilityWrite (effects (f w)) = []"
  "emitsNo isTimerStart f \<Longrightarrow> filter isTimerStart (effects (f w)) = []"
  unfolding emitsNo_def by simp_all

lemma emitsNo_setters [simp]:
  "emitsNo isVisibilityWrite (setText r s)"
  "emitsNo isTimerStart (setText r s)"
  "emitsNo isVisibilityWrite (setInactive r b)"
  "emitsNo isTimerStart (setInactive r b)"
  "emitsNo isVisibilityWrite (setTextFillColor r c)"
  "emitsNo isTimerStart (setTextFillColor r c)"
  "emitsNo isVisibilityWrite (setLocalRotation r a)"
  "emitsNo isTimerStart (setLocalRotation r a)"
  "emitsNo isTimerStart (setEnabled r b)"
  unfolding emitsNo_def by (cases r; simp)+

lemma emitsNo_pin [simp]:
  "emitsNo isTimerStart removeMobileKitPin"
  "emitsNo isTimerStart replaceMobileKitPin"
  "emitsNo isTimerStart (updateMobileKitPin P)"
  unfolding emitsNo_def
  by (simp_all add: removeMobileKitPin_def replaceMobileKitPin_def updateMobileKitPin_def Let_def
        split: option.splits prod.splits)

lemma emitsNo_updateContent [simp]:
  "emitsNo isTimerStart (updateLocationText P)"
  "emitsNo isTimerStart (updateMobileKitText P)"
  "emitsNo isTimerStart (updateContent P)"
proof -
  show 1: "emitsNo isTimerStart (updateLocationText P)"
    unfolding emitsNo_def by (simp add: updateLocationText_def Let_def)
  show 2: "emitsNo isTimerStart (updateMobileKitText P)"
    unfolding emitsNo_def
    by (simp add: updateMobileKitText_def Let_def split: option.splits sum.splits)
  show "emitsNo isTimerStart (updateContent P)"
    by (simp add: updateContent_def 1 2)
qed

lemma keeps_newLocationManagerDataAvailable [simp]:
  "keeps locationManager (newLocationManagerDataAvailable P)"
  "keeps mobileKitManager (newLocationManagerDataAvailable P)"
  "keeps handLockedUIContentManager (newLocationManagerDataAvailable P)"
  "keeps enabled (newLocationManagerDataAvailable P)"
  "emitsNo isTimerStart (newLocationManagerDataAvailable P)"
  unfolding keeps_def emitsNo_def by (simp_all add: newLocationManagerDataAvailable_def)

lemma storeGeoPosition_parts [simp]:
  "outcome (storeGeoPosition geoPosition w) = None"
  "effects (storeGeoPosition geoPosition w) = []"
  by (simp_all add: storeGeoPosition_def)

lemma storeIfDefined_object [simp]:
  "outcome (storeIfDefined (JObject kvs) key store w) = None"
  "effects (storeIfDefined (JObject kvs) key store w) = []"
  by (simp_all add: storeIfDefined_def split: option.splits)

lemma storeIfDefined_fields [simp]:
  "after (storeIfDefined (JObject kvs) key (\<lambda>v mk. mk\<lparr>mk_latitude := v\<rparr>) w) =
     w\<lparr>mobileKitManager := (mobileKitManager w)
         \<lparr>mk_latitude := (case map_of kvs key of None \<Rightarrow> mk_latitude (mobileKitManager w) | Some v \<Rightarrow> v)\<rparr>\<rparr>"
  "after (storeIfDefined (JObject kvs) key (\<lambda>v mk. mk\<lparr>mk_longitude := v\<rparr>) w) =
     w\<lparr>mobileKitManager := (mobileKitManager w)
         \<lparr>mk_longitude := (case map_of kvs key of None \<Rightarrow> mk_longitude (mobileKitManager w) | Some v \<Rightarrow> v)\<rparr>\<rparr>"
  "after (storeIfDefined (JObject kvs) key (\<lambda>v mk. mk\<lparr>mk_horizontalAccuracy := v\<rparr>) w) =
     w\<lparr>mobileKitManager := (mobileKitManager w)
         \<lparr>mk_horizontalAccuracy :=
            (case map_of kvs key of None \<Rightarrow> mk_horizontalAccuracy (mobileKitManager w) | Some v \<Rightarrow> v)\<rparr>\<rparr>"
  "after (storeIfDefined (JObject kvs) key (\<lambda>v mk. mk\<lparr>mk_altitude := v\<rparr>) w) =
     w\<lparr>mobileKitManager := (mobileKitManager w)
         \<lparr>mk_altitude := (case map_of kvs key of None \<Rightarrow> mk_altitude (mobileKitManager w) | Some v \<Rightarrow> v)\<rparr>\<rparr>"
  "after (storeIfDefined (JObject kvs) key (\<lambda>v mk. mk\<lparr>mk_verticalAccuracy := v\<rparr>) w) =
     w\<lparr>mobileKitManager := (mobileKitManager w)
         \<lparr>mk_verticalAccuracy :=
            (case map_of kvs key of None \<Rightarrow> mk_verticalAccuracy (mobileKitManager w) | Some v \<Rightarrow> v)\<rparr>\<rparr>"
  by (simp_all add: storeIfDefined_def split: option.splits)

lemma storeIfDefined_null [simp]:
  "outcome (storeIfDefined JNull key store w) = Some TypeError"
  "after (storeIfDefined JNull key store w) = w"
  "effects (storeIfDefined JNull key store w) = []"
  by (simp_all add: storeIfDefined_def)

lemma keeps_storeIfDefined [simp]:
  "keeps locationManager (storeIfDefined locationData key store)"
  "keeps handLockedUIContentManager (storeIfDefined locationData key store)"
  "keeps floatingDetailsUIContentManager (storeIfDefined locationData key store)"
  "keeps mapObject (storeIfDefined locationData key store)"
  "keeps enabled (storeIfDefined locationData key store)"
  unfolding keeps_def by (simp_all add: storeIfDefined_def split: sum.splits option.splits)

lemma keeps_newMobileKitDataAvailable [simp]:
  "keeps locationManager (newMobileKitDataAvailable P)"
  "keeps mobileKitManager (newMobileKitDataAvailable P)"
  "keeps handLockedUIContentManager (newMobileKitDataAvailable P)"
  "keeps enabled (newMobileKitDataAvailable P)"
  unfolding keeps_def by (simp_all add: newMobileKitDataAvailable_def)

lemma parseAndStore_object:
  assumes "JSON_parse P response = Inr (JObject kvs)"
  shows "mobileKitManager (after (parseAndStore P response w)) =
     (mobileKitManager w)
       \<lparr>mk_latitude :=
          (case map_of kvs ''latitude'' of None \<Rightarrow> mk_latitude (mobileKitManager w) | Some v \<Rightarrow> v),
        mk_longitude :=
          (case map_of kvs ''longitude'' of None \<Rightarrow> mk_longitude (mobileKitManager w) | Some v \<Rightarrow> v),
        mk_horizontalAccuracy :=
          (case map_of kvs ''horizontal_accuracy'' of
             None \<Rightarrow> mk_horizontalAccuracy (mobileKitManager w) | Some v \<Rightarrow> v),
        mk_altitude :=
          (case map_of kvs ''altitude'' of None \<Rightarrow> mk_altitude (mobileKitManager w) | Some v \<Rightarrow> v),
        mk_verticalAccuracy :=
          (case map_of kvs ''vertical_accuracy'' of
             None \<Rightarrow> mk_verticalAccuracy (mobileKitManager w) | Some v \<Rightarrow> v)\<rparr>"
  using assms by (simp add: parseAndStore_def exec cong: option.case_cong)

lemma example_messages:
  "JSON_parse (examplePlatform False) firstMessage =
     Inr (JObject [(''latitude'', JNumber 52.2175), (''longitude'', JNumber 5.1696),
                   (''horizontal_accuracy'', JNumber 9.08)])"
  "JSON_parse (examplePlatform False) secondMessage = Inr (JObject [(''altitude'', JNumber 15.31)])"
  by (simp_all add: examplePlatform_def exampleParse_def firstMessage_def secondMessage_def)

lemma toFixedDecimal_eval:
  assumes "nat \<lfloor>\<bar>x\<bar> * 10 ^ n + 1 / 2\<rfloor> = k" and "decimal k = ds"
  shows "toFixedDecimal x n =
     (if x < 0 then ''-'' else []) @
     take (length (replicate (Suc n - length ds) CHR ''0'' @ ds) - n)
       (replicate (Suc n - length ds) CHR ''0'' @ ds) @
     (if n = 0 then []
      else CHR ''.'' # drop (length (replicate (Suc n - length ds) CHR ''0'' @ ds) - n)
             (replicate (Suc n - length ds) CHR ''0'' @ ds))"
  by (simp add: toFixedDecimal_def Let_def assms)

lemma toFixedDecimal_examples:
  "toFixedDecimal 52.2175 6 = ''52.217500''"
  "toFixedDecimal 5.1696 6 = ''5.169600''"
  "toFixedDecimal 9.08 0 = ''9''"
  "toFixedDecimal 15.31 0 = ''15''"
  "toFixedDecimal 30 0 = ''30''"
  "toFixedDecimal 0 0 = ''0''"
  "toFixedDecimal 0 6 = ''0.000000''"
proof -
  show "toFixedDecimal 52.2175 6 = ''52.217500''"
    by (subst toFixedDecimal_eval [where k = 52217500 and ds = "''52217500''"])
       (simp_all add: decimal.simps)
  show "toFixedDecimal 5.1696 6 = ''5.169600''"
    by (subst toFixedDecimal_eval [where k = 5169600 and ds = "''5169600''"])
       (simp_all add: decimal.simps)
  show "toFixedDecimal 9.08 0 = ''9''"
    by (subst toFixedDecimal_eval [where k = 9 and ds = "''9''"]) (simp_all add: decimal.simps)
  show "toFixedDecimal 15.31 0 = ''15''"
    by (subst toFixedDecimal_eval [where k = 15 and ds = "''15''"]) (simp_all add: decimal.simps)
  show "toFixedDecimal 30 0 = ''30''"
    by (subst toFixedDecimal_eval [where k = 30 and ds = "''30''"]) (simp_all add: decimal.simps)
  show "toFixedDecimal 0 0 = ''0''"
    by (subst toFixedDecimal_eval [where k = 0 and ds = "''0''"]) (simp_all add: decimal.simps)
  show "toFixedDecimal 0 6 = ''0.000000''"
    by (subst toFixedDecimal_eval [where k = 0 and ds = "''0''"])
       (simp_all add: decimal.simps eval_nat_numeral)
qed

lemma updateLocationText_parts [simp]:
  "outcome (updateLocationText P w) = None"
  by (simp add: updateLocationText_def Let_def)

lemma updateLocationText_effects:
  assumes "fd_locationManager (floatingDetailsUIContentManager w)"
    and "locationDataText (floatingDetailsUIContentManager w) = Some t"
  shows "effects (updateLocationText P w) =
     [SetText t
        (''Source: '' @ locationSource (locationManager w) @
         ''\<newline>Latitude: '' @ toFixed P (lm_latitude (locationManager w)) 6 @
         ''\<newline>Longitude: '' @ toFixed P (lm_longitude (locationManager w)) 6 @
         ''\<newline>Horizontal Accuracy: '' @ toFixed P (lm_horizontalAccuracy (locationManager w)) 0 @ ''m'' @
         ''\<newline>Altitude: '' @ toFixed P (lm_altitude (locationManager w)) 0 @ ''m'' @
         ''\<newline>Vertical Accuracy: '' @ toFixed P (lm_verticalAccuracy (locationManager w)) 0 @ ''m'' @
         ''\<newline>Heading: '' @ toFixed P (heading (locationManager w)) 0 @ degreeSuffix)]"
  using assms by (simp add: updateLocationText_def Let_def)

lemma keeps_setEnabled [simp]:
  "keeps locationManager (setEnabled r b)"
  "keeps mobileKitManager (setEnabled r b)"
  "keeps handLockedUIContentManager (setEnabled r b)"
  "keeps floatingDetailsUIContentManager (setEnabled r b)"
  "keeps mapObject (setEnabled r b)"
  unfolding keeps_def by (cases r; simp)+

lemma keeps_setLocalRotation [simp]:
  "keeps locationManager (setLocalRotation r a)"
  "keeps mobileKitManager (setLocalRotation r a)"
  "keeps handLockedUIContentManager (setLocalRotation r a)"
  "keeps floatingDetailsUIContentManager (setLocalRotation r a)"
  "keeps mapObject (setLocalRotation r a)"
  "keeps enabled (setLocalRotation r a)"
  unfolding keeps_def by (cases r; simp)+

lemma andThen_returned:
  "f w = (None, w1, l1) \<Longrightarrow> g w1 = (r, w2, l2) \<Longrightarrow> andThen f g w = (r, w2, l1 @ l2)"
  by (simp add: andThen_def)

lemma guarded_disable:
  "(if r \<noteq> None then setEnabled r False else skip) w =
     (None,
      w\<lparr>enabled := (\<lambda>i. if Some i = r then False else enabled w i)\<rparr>,
      case r of None \<Rightarrow> [] | Some i \<Rightarrow> [SetEnabled i False])"
  by (cases r) (auto simp add: setEnabled_def skip_def fun_eq_iff intro!: world.equality)

lemma disable_all:
  "seqAll (map (\<lambda>r. if r \<noteq> None then setEnabled r False else skip) rs) w =
     (None,
      w\<lparr>enabled := (\<lambda>i. if Some i \<in> set rs then False else enabled w i)\<rparr>,
      concat (map (\<lambda>r. case r of None \<Rightarrow> [] | Some i \<Rightarrow> [SetEnabled i False]) rs))"
proof (induction rs arbitrary: w)
  case Nil
  show ?case by (simp add: seqAll_Nil skip_def)
next
  case (Cons r rs)
  let ?w1 = "w\<lparr>enabled := (\<lambda>i. if Some i = r then False else enabled w i)\<rparr>"
  have "seqAll (map (\<lambda>r. if r \<noteq> None then setEnabled r False else skip) (r # rs)) w =
      andThen (if r \<noteq> None then setEnabled r False else skip)
        (seqAll (map (\<lambda>r. if r \<noteq> None then setEnabled r False else skip) rs)) w"
    by (simp add: seqAll_Cons)
  also have "\<dots> =
      (None,
       ?w1\<lparr>enabled := (\<lambda>i. if Some i \<in> set rs then False else enabled ?w1 i)\<rparr>,
       (case r of None \<Rightarrow> [] | Some i \<Rightarrow> [SetEnabled i False]) @
       concat (map (\<lambda>r. case r of None \<Rightarrow> [] | Some i \<Rightarrow> [SetEnabled i False]) rs))"
    by (rule andThen_returned [OF guarded_disable Cons.IH])
  also have "?w1\<lparr>enabled := (\<lambda>i. if Some i \<in> set rs then False else enabled ?w1 i)\<rparr> =
      w\<lparr>enabled := (\<lambda>i. if Some i \<in> set (r # rs) then False else enabled w i)\<rparr>"
    by (auto simp add: fun_eq_iff)
  finally show ?case by simp
qed

lemma statusImages_member:
  "i \<in> set (statusImages hl) \<longleftrightarrow>
     Some i \<in> set [gpsStatusWhiteImage hl, gpsStatusRedImage hl, gpsStatusBlueImage hl,
                   gpsStatusYellowImage hl, gpsStatusGreenImage hl]"
  by (auto simp add: statusImages_def split: option.splits)

lemma disableAllGPSStatusImages_result:
  "disableAllGPSStatusImages w =
     (None,
      w\<lparr>enabled := (\<lambda>i. if i \<in> set (statusImages (handLockedUIContentManager w)) then False
                          else enabled w i)\<rparr>,
      map (\<lambda>i. SetEnabled i False) (statusImages (handLockedUIContentManager w)))"
proof -
  let ?hl = "handLockedUIContentManager w"
  let ?rs = "[gpsStatusWhiteImage ?hl, gpsStatusRedImage ?hl, gpsStatusBlueImage ?hl,
              gpsStatusYellowImage ?hl, gpsStatusGreenImage ?hl]"
  have "disableAllGPSStatusImages w =
      seqAll (map (\<lambda>r. if r \<noteq> None then setEnabled r False else skip) ?rs) w"
    by (simp add: disableAllGPSStatusImages_def Let_def)
  also note disable_all
  also have "(\<lambda>i. if Some i \<in> set ?rs then False else enabled w i) =
      (\<lambda>i. if i \<in> set (statusImages ?hl) then False else enabled w i)"
    unfolding statusImages_member ..
  also have "concat (map (\<lambda>r. case r of None \<Rightarrow> [] | Some i \<Rightarrow> [SetEnabled i False]) ?rs) =
      map (\<lambda>i. SetEnabled i False) (statusImages ?hl)"
    by (simp add: statusImages_def split: option.splits)
  finally show ?thesis .
qed

lemma statusImages_cache [simp]:
  "statusImages (hl\<lparr>lastLocationSource := s\<rparr>) = statusImages hl"
  "getGPSStatusImage (hl\<lparr>lastLocationSource := s\<rparr>) = getGPSStatusImage hl"
  by (simp_all add: statusImages_def getGPSStatusImage_def fun_eq_iff)

lemma updateGPSStatusIndicator_unchanged:
  "\<not> hl_locationManager (handLockedUIContentManager w) \<or>
   locationSource (locationManager w) = lastLocationSource (handLockedUIContentManager w) \<Longrightarrow>
   updateGPSStatusIndicator w = (None, w, [])"
  by (auto simp add: updateGPSStatusIndicator_def Let_def skip_def)

lemma updateGPSStatusIndicator_changed:
  assumes "hl_locationManager (handLockedUIContentManager w)"
    and "locationSource (locationManager w) \<noteq> lastLocationSource (handLockedUIContentManager w)"
  shows "updateGPSStatusIndicator w =
     (None,
      w\<lparr>handLockedUIContentManager :=
          (handLockedUIContentManager w)\<lparr>lastLocationSource := locationSource (locationManager w)\<rparr>,
        enabled :=
          (\<lambda>i. if getGPSStatusImage (handLockedUIContentManager w)
                     (locationSource (locationManager w)) = Some i then True
               else if i \<in> set (statusImages (handLockedUIContentManager w)) then False
               else enabled w i)\<rparr>,
      map (\<lambda>i. SetEnabled i False) (statusImages (handLockedUIContentManager w)) @
      (case getGPSStatusImage (handLockedUIContentManager w) (locationSource (locationManager w)) of
         None \<Rightarrow> [Print (''updateGPSStatusIndicator() - Warning: No image found for GPS status: ''
                          @ locationSource (locationManager w))]
       | Some t \<Rightarrow> [SetEnabled t True]))"
  using assms
  by (cases "getGPSStatusImage (handLockedUIContentManager w) (locationSource (locationManager w))")
     (simp_all add: updateGPSStatusIndicator_def Let_def seqAll_Cons seqAll_Nil andThen_def
        disableAllGPSStatusImages_result setEnabled_def print_def skip_def fun_eq_iff)

lemma updateGPSStatusIndicator_parts [simp]:
  "outcome (updateGPSStatusIndicator w) = None"
  "locationManager (after (updateGPSStatusIndicator w)) = locationManager w"
  "mobileKitManager (after (updateGPSStatusIndicator w)) = mobileKitManager w"
  "floatingDetailsUIContentManager (after (updateGPSStatusIndicator w)) =
     floatingDetailsUIContentManager w"
  "mapObject (after (updateGPSStatusIndicator w)) = mapObject w"
proof -
  consider "\<not> hl_locationManager (handLockedUIContentManager w) \<or>
      locationSource (locationManager w) = lastLocationSource (handLockedUIContentManager w)"
    | "hl_locationManager (handLockedUIContentManager w)"
      "locationSource (locationManager w) \<noteq> lastLocationSource (handLockedUIContentManager w)"
    by blast
  then have "outcome (updateGPSStatusIndicator w) = None \<and>
    locationManager (after (updateGPSStatusIndicator w)) = locationManager w \<and>
    mobileKitManager (after (updateGPSStatusIndicator w)) = mobileKitManager w \<and>
    floatingDetailsUIContentManager (after (updateGPSStatusIndicator w)) =
      floatingDetailsUIContentManager w \<and>
    mapObject (after (updateGPSStatusIndicator w)) = mapObject w"
  proof cases
    case 1
    then show ?thesis by (simp add: updateGPSStatusIndicator_unchanged)
  next
    case 2
    then show ?thesis by (simp add: updateGPSStatusIndicator_changed)
  qed
  then show "outcome (updateGPSStatusIndicator w) = None"
    "locationManager (after (updateGPSStatusIndicator w)) = locationManager w"
    "mobileKitManager (after (updateGPSStatusIndicator w)) = mobileKitManager w"
    "floatingDetailsUIContentManager (after (updateGPSStatusIndicator w)) =
       floatingDetailsUIContentManager w"
    "mapObject (after (updateGPSStatusIndicator w)) = mapObject w"
    by simp_all
qed

lemma updateGPSStatusIndicator_cache:
  "handLockedUIContentManager (after (updateGPSStatusIndicator w)) =
     (if hl_locationManager (handLockedUIContentManager w)
      then (handLockedUIContentManager w)\<lparr>lastLocationSource := locationSource (locationManager w)\<rparr>
      else handLockedUIContentManager w)"
proof (cases "hl_locationManager (handLockedUIContentManager w) \<and>
    locationSource (locationManager w) \<noteq> lastLocationSource (handLockedUIContentManager w)")
  case True
  then show ?thesis by (simp add: updateGPSStatusIndicator_changed)
next
  case False
  then have "updateGPSStatusIndicator w = (None, w, [])"
    by (intro updateGPSStatusIndicator_unchanged) blast
  with False show ?thesis by auto
qed

lemma keeps_updateLocationTextElements [simp]:
  "keeps locationManager (updateLocationTextElements P)"
  "keeps mobileKitManager (updateLocationTextElements P)"
  "keeps handLockedUIContentManager (updateLocationTextElements P)"
  "keeps floatingDetailsUIContentManager (updateLocationTextElements P)"
  "keeps mapObject (updateLocationTextElements P)"
  "keeps enabled (updateLocationTextElements P)"
  "emitsNo isVisibilityWrite (updateLocationTextElements P)"
  unfolding keeps_def emitsNo_def by (simp_all add: updateLocationTextElements_def Let_def)

lemma keeps_updateCompassRotation [simp]:
  "keeps locationManager updateCompassRotation"
  "keeps mobileKitManager updateCompassRotation"
  "keeps handLockedUIContentManager updateCompassRotation"
  "keeps floatingDetailsUIContentManager updateCompassRotation"
  "keeps mapObject updateCompassRotation"
  "keeps enabled updateCompassRotation"
  "emitsNo isVisibilityWrite updateCompassRotation"
  unfolding keeps_def emitsNo_def by (simp_all add: updateCompassRotation_def Let_def)

lemma onUpdate_parts:
  "locationManager (after (onUpdate P w)) = locationManager w"
  "mobileKitManager (after (onUpdate P w)) = mobileKitManager w"
  "floatingDetailsUIContentManager (after (onUpdate P w)) = floatingDetailsUIContentManager w"
  "mapObject (after (onUpdate P w)) = mapObject w"
  "handLockedUIContentManager (after (onUpdate P w)) =
     handLockedUIContentManager (after (updateGPSStatusIndicator w))"
  "visibilityWrites (effects (onUpdate P w)) = visibilityWrites (effects (updateGPSStatusIndicator w))"
  by (simp_all add: onUpdate_def seqAll_Cons seqAll_Nil after_andThen effects_andThen
        visibilityWrites_def)

lemma remdups_filter_eq:
  "remdups (filter (\<lambda>i. i = x) xs) = (if x \<in> set xs then [x] else [])"
  by (induction xs) auto

lemma getGPSStatusImage_member:
  "getGPSStatusImage hl s = Some i \<Longrightarrow> i \<in> set (statusImages hl)"
  by (auto simp add: getGPSStatusImage_def statusImages_member split: if_splits)

lemma enabledStatusImages_after_change:
  assumes "hl_locationManager (handLockedUIContentManager w)"
    and "locationSource (locationManager w) \<noteq> lastLocationSource (handLockedUIContentManager w)"
  shows "enabledStatusImages (after (updateGPSStatusIndicator w)) =
     (case getGPSStatusImage (handLockedUIContentManager w) (locationSource (locationManager w)) of
        None \<Rightarrow> [] | Some t \<Rightarrow> [t])"
proof -
  let ?hl = "handLockedUIContentManager w"
  let ?t = "getGPSStatusImage ?hl (locationSource (locationManager w))"
  let ?w' = "after (updateGPSStatusIndicator w)"
  have "filter (enabled ?w') (statusImages ?hl) = filter (\<lambda>i. ?t = Some i) (statusImages ?hl)"
    using assms by (intro filter_cong) (simp_all add: updateGPSStatusIndicator_changed)
  moreover have "statusImages (handLockedUIContentManager ?w') = statusImages ?hl"
    using assms by (simp add: updateGPSStatusIndicator_changed)
  ultimately have e: "enabledStatusImages ?w' = remdups (filter (\<lambda>i. ?t = Some i) (statusImages ?hl))"
    by (simp add: enabledStatusImages_def)
  show ?thesis
  proof (cases ?t)
    case None
    with e show ?thesis by simp
  next
    case (Some t)
    then have "t \<in> set (statusImages ?hl)"
      by (rule getGPSStatusImage_member)
    moreover have "(\<lambda>i. Some t = Some i) = (\<lambda>i. i = t)"
      by auto
    ultimately show ?thesis
      using e Some by (simp add: remdups_filter_eq)
  qed
qed

text \<open>Properties that every callback preserves.\<close>

lemma preservesD: "preserves I f \<Longrightarrow> I w \<Longrightarrow> I (after (f w))"
  by (simp add: preserves_def)

lemma preserves_basic [simp]: "preserves I skip" "preserves I (throw e)" "preserves I (print s)"
  by (simp_all add: preserves_def)

lemma preserves_andThen [simp]: "preserves I f \<Longrightarrow> preserves I h \<Longrightarrow> preserves I (andThen f h)"
  by (simp add: preserves_def after_andThen)

lemma preserves_seqAll [simp]: "list_all (preserves I) fs \<Longrightarrow> preserves I (seqAll fs)"
  by (induction fs) (simp_all add: seqAll_Nil seqAll_Cons)

lemma preserves_tryCatch [simp]:
  "preserves I f \<Longrightarrow> (\<And>e. preserves I (h e)) \<Longrightarrow> preserves I (tryCatch f h)"
  by (simp add: preserves_def after_tryCatch split: option.splits)

lemma preserves_if [simp]: "preserves I f \<Longrightarrow> preserves I h \<Longrightarrow> preserves I (if c then f else h)"
  by simp

lemma preserves_noSourceYet:
  "keeps locationManager f \<Longrightarrow> keeps handLockedUIContentManager f \<Longrightarrow> preserves noSourceYet f"
  by (simp add: preserves_def noSourceYet_def)

lemma preserves_pinsAsHeld:
  "keeps mapObject f \<Longrightarrow> keeps floatingDetailsUIContentManager f \<Longrightarrow> preserves pinsAsHeld f"
  by (simp add: preserves_def pinsAsHeld_def)

text \<open>The pin on the map.\<close>

lemma removeMobileKitPin_held:
  assumes "pinsAsHeld w"
  shows "removeMapPin pin (mapObject w)\<lparr>mapPins := []\<rparr> = (mapObject w)\<lparr>mapPins := []\<rparr>"
  by (simp add: removeMapPin_def)

lemma preserves_pin_steps [simp]:
  "preserves pinsAsHeld removeMobileKitPin"
  "preserves pinsAsHeld replaceMobileKitPin"
  unfolding preserves_def pinsAsHeld_def
  by (auto simp add: removeMobileKitPin_def replaceMobileKitPin_def removeMapPin_def
        createMapPin_def Let_def split: option.splits)

lemma preserved [simp]:
  "preserves pinsAsHeld f \<Longrightarrow> pinsAsHeld w \<Longrightarrow> pinsAsHeld (after (f w))"
  "preserves noSourceYet f \<Longrightarrow> noSourceYet w \<Longrightarrow> noSourceYet (after (f w))"
  unfolding preserves_def by simp_all

lemma preserves_updateMobileKitPin [simp]: "preserves pinsAsHeld (updateMobileKitPin P)"
  unfolding preserves_def by (simp add: updateMobileKitPin_def Let_def split: option.splits)

lemma preserves_panel_setters [simp]:
  "preserves pinsAsHeld (setText r s)"
  "preserves pinsAsHeld (setInactive r b)"
  "preserves pinsAsHeld (setTextFillColor r c)"
  "preserves pinsAsHeld (setEnabled r b)"
  "preserves pinsAsHeld (updateLocationText P)"
  by (simp_all add: preserves_pinsAsHeld)

lemma preserves_updateMobileKitText [simp]: "preserves pinsAsHeld (updateMobileKitText P)"
  unfolding preserves_def
  by (simp add: updateMobileKitText_def Let_def split: option.splits sum.splits)

lemma preserves_updateContent [simp]:
  "preserves pinsAsHeld (updateContent P)"
  "preserves noSourceYet (updateContent P)"
  by (simp_all add: updateContent_def preserves_noSourceYet)

text \<open>The callbacks, one by one.\<close>

lemma preserves_location_steps [simp]:
  "preserves pinsAsHeld configureLocationManager"
  "preserves noSourceYet configureLocationManager"
  "preserves pinsAsHeld processGeoPosition"
  "preserves noSourceYet processGeoPosition"
  "preserves pinsAsHeld positionRequestEnds"
  "preserves noSourceYet positionRequestEnds"
  "preserves pinsAsHeld delayedCallbackDisarmed"
  "preserves noSourceYet delayedCallbackDisarmed"
  "preserves pinsAsHeld (storeGeoPosition geoPosition)"
  "preserves pinsAsHeld (onGeoPositionError error)"
  "preserves noSourceYet (onGeoPositionError error)"
  unfolding preserves_def pinsAsHeld_def noSourceYet_def
  by (simp_all add: configureLocationManager_def processGeoPosition_def positionRequestEnds_def
        delayedCallbackDisarmed_def storeGeoPosition_def onGeoPositionError_def)

lemma preserves_storeGeoPosition [simp]:
  "gp_locationSource geoPosition = [] \<Longrightarrow> preserves noSourceYet (storeGeoPosition geoPosition)"
  unfolding preserves_def noSourceYet_def by (simp add: storeGeoPosition_def)

lemma preserves_newLocationManagerDataAvailable [simp]:
  "preserves pinsAsHeld (newLocationManagerDataAvailable P)"
  "preserves noSourceYet (newLocationManagerDataAvailable P)"
  unfolding preserves_def by (simp_all add: newLocationManagerDataAvailable_def)

lemma preserves_onGeoPosition [simp]:
  "preserves pinsAsHeld (onGeoPosition P geoPosition)"
  "gp_locationSource geoPosition = [] \<Longrightarrow> preserves noSourceYet (onGeoPosition P geoPosition)"
  by (simp_all add: onGeoPosition_def)

lemma preserves_orientation [simp]:
  "preserves pinsAsHeld (processNorthAlignedOrientationUpdate P q)"
  "preserves noSourceYet (processNorthAlignedOrientationUpdate P q)"
proof -
  have "pinsAsHeld (w\<lparr>locationManager := (locationManager w)\<lparr>heading := h\<rparr>\<rparr>)"
    if "pinsAsHeld w" for w h
    using that by (simp add: pinsAsHeld_def)
  then show "preserves pinsAsHeld (processNorthAlignedOrientationUpdate P q)"
    unfolding preserves_def by (simp add: processNorthAlignedOrientationUpdate_def Let_def)
  have "noSourceYet (w\<lparr>locationManager := (locationManager w)\<lparr>heading := h\<rparr>\<rparr>)"
    if "noSourceYet w" for w h
    using that by (simp add: noSourceYet_def)
  then show "preserves noSourceYet (processNorthAlignedOrientationUpdate P q)"
    unfolding preserves_def by (simp add: processNorthAlignedOrientationUpdate_def Let_def)
qed

lemma preserves_storeIfDefined [simp]:
  "preserves pinsAsHeld (storeIfDefined locationData key store)"
  "preserves noSourceYet (storeIfDefined locationData key store)"
  by (simp_all add: preserves_pinsAsHeld preserves_noSourceYet)

lemma preserves_newMobileKitDataAvailable [simp]:
  "preserves pinsAsHeld (newMobileKitDataAvailable P)"
  "preserves noSourceYet (newMobileKitDataAvailable P)"
  unfolding preserves_def by (simp_all add: newMobileKitDataAvailable_def)

lemma preserves_parseAndStore [simp]:
  "preserves pinsAsHeld (parseAndStore P response)"
  "preserves noSourceYet (parseAndStore P response)"
  unfolding preserves_def by (simp_all add: parseAndStore_def split: sum.splits)

lemma preserves_onGPSLocationResponse [simp]:
  "preserves pinsAsHeld (onGPSLocationResponse P response)"
  "preserves noSourceYet (onGPSLocationResponse P response)"
  by (simp_all add: onGPSLocationResponse_def)

lemma preserves_updateGPSStatusIndicator [simp]:
  "preserves pinsAsHeld updateGPSStatusIndicator"
  "preserves noSourceYet updateGPSStatusIndicator"
  unfolding preserves_def
  by (simp_all add: pinsAsHeld_def noSourceYet_def updateGPSStatusIndicator_unchanged)

lemma preserves_onUpdate [simp]:
  "preserves pinsAsHeld (onUpdate P)"
  "preserves noSourceYet (onUpdate P)"
  by (simp_all add: onUpdate_def preserves_pinsAsHeld preserves_noSourceYet)

lemma preserves_buttons [simp]:
  "preserves pinsAsHeld (startMobileKitButtonPressed P)"
  "preserves noSourceYet (startMobileKitButtonPressed P)"
  "preserves pinsAsHeld (detailsButtonPressed P)"
  "preserves noSourceYet (detailsButtonPressed P)"
  "preserves pinsAsHeld closeButtonPressed"
  "preserves noSourceYet closeButtonPressed"
  unfolding preserves_def
  by (simp_all add: startMobileKitButtonPressed_def detailsButtonPressed_def closeButtonPressed_def
        Let_def preserves_noSourceYet)

lemma preserves_dispatch:
  "preserves pinsAsHeld (dispatch P ev)"
  "reportsNoSource ev \<Longrightarrow> preserves noSourceYet (dispatch P ev)"
  unfolding preserves_def by (cases ev; simp)+

lemma run_Cons: "fst (run P (ev # evs) w) = fst (run P evs (after (dispatch P ev w)))"
  by (cases "dispatch P ev w"; cases "run P evs (after (dispatch P ev w))") simp

lemma run_preserves:
  "list_all (\<lambda>ev. preserves I (dispatch P ev)) evs \<Longrightarrow> I w \<Longrightarrow> I (fst (run P evs w))"
proof (induction evs arbitrary: w)
  case Nil
  then show ?case by simp
next
  case (Cons ev evs)
  from Cons.prems have "I (after (dispatch P ev w))"
    by (simp add: preserves_def)
  with Cons.IH [of "after (dispatch P ev w)"] Cons.prems
  show ?case
    unfolding run_Cons by simp
qed

lemma run_held: "pinsAsHeld w \<Longrightarrow> pinsAsHeld (fst (run P evs w))"
  by (rule run_preserves) (simp_all add: list_all_iff preserves_dispatch)

lemma atComponentStart_noSourceYet:
  "atComponentStart w \<Longrightarrow>
   lastLocationSource (handLockedUIContentManager w) = locationSource (locationManager w) \<and>
   noSourceYet w"
proof -
  assume "atComponentStart w"
  then have "locationSource (locationManager w) = locationSource (newLocationManager (locationManager w))"
    and "lastLocationSource (handLockedUIContentManager w) =
      lastLocationSource (newHandLockedUIContentManager (handLockedUIContentManager w))"
    by (simp_all add: atComponentStart_def)
  then show ?thesis
    by (simp add: noSourceYet_def newLocationManager_def newHandLockedUIContentManager_def)
qed

lemma run_start:
  "list_all reportsNoSource evs \<Longrightarrow> noSourceYet w \<Longrightarrow> noSourceYet (fst (run P evs w))"
  by (rule run_preserves) (simp_all add: list_all_iff preserves_dispatch)

lemma removeMobileKitPin_result:
  assumes "mapComponent (floatingDetailsUIContentManager w)" and "pinsAsHeld w"
  shows "outcome (removeMobileKitPin w) = None"
    and "mobileKitPin (floatingDetailsUIContentManager (after (removeMobileKitPin w))) = None"
    and "mapPins (mapObject (after (removeMobileKitPin w))) = []"
    and "effects (removeMobileKitPin w) =
      (case mobileKitPin (floatingDetailsUIContentManager w) of
         None \<Rightarrow> [] | Some pin \<Rightarrow> [RemoveMapPin pin])"
  using assms
  by (simp_all add: removeMobileKitPin_def pinsAsHeld_def removeMapPin_def Let_def
        split: option.splits)

lemma replaceMobileKitPin_result:
  assumes "pinsAsHeld w"
  shows "outcome (replaceMobileKitPin w) = None"
    and "\<exists>pin'. mobileKitPin (floatingDetailsUIContentManager (after (replaceMobileKitPin w))) = Some pin' \<and>
           pinLongitude pin' = mk_longitude (mobileKitManager w) \<and>
           pinLatitude pin' = mk_latitude (mobileKitManager w) \<and>
           mapPins (mapObject (after (replaceMobileKitPin w))) = [pin']"
    and "effects (replaceMobileKitPin w) =
      (case mobileKitPin (floatingDetailsUIContentManager w) of
         None \<Rightarrow> [] | Some pin \<Rightarrow> [RemoveMapPin pin]) @
      [CreateMapPin (mk_longitude (mobileKitManager w)) (mk_latitude (mobileKitManager w))]"
  using assms
  by (simp_all add: replaceMobileKitPin_def pinsAsHeld_def removeMapPin_def createMapPin_def Let_def
        split: option.splits)

lemma updateMobileKitPin_cases:
  assumes "mapComponent (floatingDetailsUIContentManager w)"
    and "mobileKitManagerSceneObject (floatingDetailsUIContentManager w) = Some so"
    and "fd_mobileKitManager (floatingDetailsUIContentManager w)"
  shows "noMobileKitData P w so \<Longrightarrow> updateMobileKitPin P w = removeMobileKitPin w"
    and "\<not> noMobileKitData P w so \<Longrightarrow> updateMobileKitPin P w = replaceMobileKitPin w"
  using assms by (auto simp add: updateMobileKitPin_def noMobileKitData_def Let_def)

lemma example_pin_facts:
  "mapComponent (floatingDetailsUIContentManager exampleWorldWithReading)"
  "mobileKitManagerSceneObject (floatingDetailsUIContentManager exampleWorldWithReading) = Some 11"
  "fd_mobileKitManager (floatingDetailsUIContentManager exampleWorldWithReading)"
  "pinsAsHeld exampleWorldWithReading"
  "\<not> noMobileKitData (examplePlatform False) exampleWorldWithReading 11"
  "noMobileKitData (examplePlatform True) exampleWorldWithReading 11"
  "mobileKitPin (floatingDetailsUIContentManager exampleWorldWithReading) = None"
  "mk_longitude (mobileKitManager exampleWorldWithReading) = JNumber 5.1696"
  "mk_latitude (mobileKitManager exampleWorldWithReading) = JNumber 52.2175"
  by (simp_all add: exampleWorldWithReading_def exampleWorld_def pinsAsHeld_def
        noMobileKitData_def examplePlatform_def)

text \<open>The refresh of the detailed panel, branch by branch.\<close>

lemma kept_stores [simp]:
  "keeps textString f \<Longrightarrow> textString (after (f w)) = textString w"
  "keeps inactive f \<Longrightarrow> inactive (after (f w)) = inactive w"
  "keeps textFillColor f \<Longrightarrow> textFillColor (after (f w)) = textFillColor w"
  unfolding keeps_def by simp_all

lemma keeps_stores_pin [simp]:
  "keeps textString removeMobileKitPin"
  "keeps inactive removeMobileKitPin"
  "keeps textFillColor removeMobileKitPin"
  "keeps textString replaceMobileKitPin"
  "keeps inactive replaceMobileKitPin"
  "keeps textFillColor replaceMobileKitPin"
  unfolding keeps_def
  by (simp_all add: removeMobileKitPin_def replaceMobileKitPin_def Let_def
        split: option.splits prod.splits)

lemma keeps_stores_updateMobileKitPin [simp]:
  "keeps textString (updateMobileKitPin P)"
  "keeps inactive (updateMobileKitPin P)"
  "keeps textFillColor (updateMobileKitPin P)"
  unfolding keeps_def by (simp_all add: updateMobileKitPin_def Let_def split: option.splits)

lemma removeMobileKitPin_clears:
  "mapComponent (floatingDetailsUIContentManager w) \<or>
   mobileKitPin (floatingDetailsUIContentManager w) = None \<Longrightarrow>
   mobileKitPin (floatingDetailsUIContentManager (after (removeMobileKitPin w))) = None"
  by (auto simp add: removeMobileKitPin_def Let_def split: option.splits)

lemma removeMobileKitPin_wiring [simp]:
  "mapComponent (floatingDetailsUIContentManager (after (removeMobileKitPin w))) =
     mapComponent (floatingDetailsUIContentManager w)"
  "mobileKitManagerSceneObject (floatingDetailsUIContentManager (after (removeMobileKitPin w))) =
     mobileKitManagerSceneObject (floatingDetailsUIContentManager w)"
  "fd_mobileKitManager (floatingDetailsUIContentManager (after (removeMobileKitPin w))) =
     fd_mobileKitManager (floatingDetailsUIContentManager w)"
  "outcome (removeMobileKitPin w) = None"
  by (simp_all add: removeMobileKitPin_def Let_def split: option.splits)

lemma replaceMobileKitPin_wiring [simp]:
  "mapComponent (floatingDetailsUIContentManager (after (replaceMobileKitPin w))) =
     mapComponent (floatingDetailsUIContentManager w)"
  "mobileKitManagerSceneObject (floatingDetailsUIContentManager (after (replaceMobileKitPin w))) =
     mobileKitManagerSceneObject (floatingDetailsUIContentManager w)"
  "fd_mobileKitManager (floatingDetailsUIContentManager (after (replaceMobileKitPin w))) =
     fd_mobileKitManager (floatingDetailsUIContentManager w)"
  "outcome (replaceMobileKitPin w) = None"
  by (simp_all add: replaceMobileKitPin_def Let_def split: option.splits prod.splits)

lemma updateMobileKitPin_returns:
  "mobileKitManagerSceneObject (floatingDetailsUIContentManager w) = Some so \<Longrightarrow>
   fd_mobileKitManager (floatingDetailsUIContentManager w) \<Longrightarrow>
   outcome (updateMobileKitPin P w) = None"
  by (simp add: updateMobileKitPin_def Let_def)

lemma updateMobileKitPin_no_data:
  assumes "mobileKitManagerSceneObject (floatingDetailsUIContentManager w) = Some so"
    and "noMobileKitData P w so"
    and "mobileKitPin (floatingDetailsUIContentManager w) = None"
  shows "mobileKitPin (floatingDetailsUIContentManager (after (updateMobileKitPin P w))) = None"
  using assms
  by (auto simp add: updateMobileKitPin_def noMobileKitData_def removeMobileKitPin_def Let_def)

text \<open>The three branches of \<open>updateMobileKitText\<close> with a fixed message.\<close>

lemma fixed_message_block:
  fixes w :: world and s :: string and v :: bool and c :: vec4
  assumes "mobileKitText (floatingDetailsUIContentManager w) = Some t"
    and "startMobileKitButton (floatingDetailsUIContentManager w) = Some b"
    and "startMobileKitButtonText (floatingDetailsUIContentManager w) = Some bt"
    and "mapComponent (floatingDetailsUIContentManager w) \<or>
         mobileKitPin (floatingDetailsUIContentManager w) = None"
  defines "r \<equiv> seqAll [setText (mobileKitText (floatingDetailsUIContentManager w)) s,
                        setInactive (startMobileKitButton (floatingDetailsUIContentManager w)) v,
                        setTextFillColor (startMobileKitButtonText (floatingDetailsUIContentManager w)) c,
                        removeMobileKitPin] w"
  shows "outcome r = None"
    and "textString (after r) t = s"
    and "inactive (after r) b = v"
    and "textFillColor (after r) bt = c"
    and "mobileKitPin (floatingDetailsUIContentManager (after r)) = None"
    and "mobileKitManagerSceneObject (floatingDetailsUIContentManager (after r)) =
         mobileKitManagerSceneObject (floatingDetailsUIContentManager w)"
    and "enabled (after r) = enabled w"
    and "mobileKitManager (after r) = mobileKitManager w"
    and "\<forall>pin. mobileKitPin (floatingDetailsUIContentManager w) = Some pin \<longrightarrow>
           RemoveMapPin pin \<in> set (effects r)"
  using assms(1-4) unfolding r_def
  by (simp_all add: exec removeMobileKitPin_clears)
     (auto simp add: removeMobileKitPin_def Let_def)

lemma fixed_message_block_wiring:
  fixes w :: world and s :: string and v :: bool and c :: vec4
  assumes "mobileKitText (floatingDetailsUIContentManager w) = Some t"
    and "startMobileKitButton (floatingDetailsUIContentManager w) = Some b"
    and "startMobileKitButtonText (floatingDetailsUIContentManager w) = Some bt"
  defines "r \<equiv> seqAll [setText (mobileKitText (floatingDetailsUIContentManager w)) s,
                        setInactive (startMobileKitButton (floatingDetailsUIContentManager w)) v,
                        setTextFillColor (startMobileKitButtonText (floatingDetailsUIContentManager w)) c,
                        removeMobileKitPin] w"
  shows "fd_mobileKitManager (floatingDetailsUIContentManager (after r)) =
         fd_mobileKitManager (floatingDetailsUIContentManager w)"
  using assms(1-3) unfolding r_def by (simp add: exec)

lemma updateContent_steps:
  "updateContent P w =
     andThen (updateLocationText P) (andThen (updateMobileKitText P) (updateMobileKitPin P)) w"
proof -
  have "andThen (updateMobileKitPin P) skip = updateMobileKitPin P"
    by (rule ext) (simp add: andThen_def skip_def split: prod.splits option.splits)
  then show ?thesis
    by (simp add: updateContent_def seqAll_Cons seqAll_Nil)
qed

lemma refresh_with_fixed_message:
  fixes w :: world and s :: string and v :: bool and c :: vec4
  assumes t: "mobileKitText (floatingDetailsUIContentManager w) = Some t"
    and b: "startMobileKitButton (floatingDetailsUIContentManager w) = Some b"
    and bt: "startMobileKitButtonText (floatingDetailsUIContentManager w) = Some bt"
    and so: "mobileKitManagerSceneObject (floatingDetailsUIContentManager w) = Some so"
    and mk: "fd_mobileKitManager (floatingDetailsUIContentManager w)"
    and pin: "mapComponent (floatingDetailsUIContentManager w) \<or>
         mobileKitPin (floatingDetailsUIContentManager w) = None"
    and no_data: "noMobileKitData P w so"
    and branch: "\<And>w1. floatingDetailsUIContentManager w1 = floatingDetailsUIContentManager w \<Longrightarrow>
       enabled w1 = enabled w \<Longrightarrow> mobileKitManager w1 = mobileKitManager w \<Longrightarrow>
       updateMobileKitText P w1 =
         seqAll [setText (mobileKitText (floatingDetailsUIContentManager w1)) s,
                 setInactive (startMobileKitButton (floatingDetailsUIContentManager w1)) v,
                 setTextFillColor (startMobileKitButtonText (floatingDetailsUIContentManager w1)) c,
                 removeMobileKitPin] w1"
  shows "outcome (updateContent P w) = None \<and>
    textString (after (updateContent P w)) t = s \<and>
    inactive (after (updateContent P w)) b = v \<and>
    textFillColor (after (updateContent P w)) bt = c \<and>
    mobileKitPin (floatingDetailsUIContentManager (after (updateContent P w))) = None \<and>
    (\<forall>pin. mobileKitPin (floatingDetailsUIContentManager w) = Some pin \<longrightarrow>
       RemoveMapPin pin \<in> set (effects (updateContent P w)))"
proof -
  let ?w1 = "after (updateLocationText P w)"
  let ?r = "updateMobileKitText P ?w1"
  let ?w2 = "after ?r"
  have w1: "floatingDetailsUIContentManager ?w1 = floatingDetailsUIContentManager w"
    "enabled ?w1 = enabled w" "mobileKitManager ?w1 = mobileKitManager w"
    by simp_all
  note r = branch [OF w1]
  note block = fixed_message_block [of ?w1 t b bt s v c, folded r, unfolded w1, OF t b bt pin]
  note wiring = fixed_message_block_wiring [of ?w1 t b bt s v c, folded r, unfolded w1, OF t b bt]
  have so2: "mobileKitManagerSceneObject (floatingDetailsUIContentManager ?w2) = Some so"
    using block(6) so by simp
  have mk2: "fd_mobileKitManager (floatingDetailsUIContentManager ?w2)"
    using wiring mk by simp
  have no_data2: "noMobileKitData P ?w2 so"
    using no_data block(7,8) by (simp add: noMobileKitData_def)
  have last_ok: "outcome (updateMobileKitPin P ?w2) = None"
    by (rule updateMobileKitPin_returns [OF so2 mk2])
  have last_pin: "mobileKitPin (floatingDetailsUIContentManager (after (updateMobileKitPin P ?w2))) = None"
    by (rule updateMobileKitPin_no_data [OF so2 no_data2 block(5)])
  show ?thesis
    unfolding updateContent_steps
    using block last_ok last_pin
    by (simp add: exec)
qed

lemma example_wiring:
  "mobileKitText (floatingDetailsUIContentManager exampleWorld) = Some 14"
  "startMobileKitButton (floatingDetailsUIContentManager exampleWorld) = Some 12"
  "startMobileKitButtonText (floatingDetailsUIContentManager exampleWorld) = Some 13"
  "mobileKitManagerSceneObject (floatingDetailsUIContentManager exampleWorld) = Some 11"
  "fd_mobileKitManager (floatingDetailsUIContentManager exampleWorld)"
  "mapComponent (floatingDetailsUIContentManager exampleWorld) \<or>
   mobileKitPin (floatingDetailsUIContentManager exampleWorld) = None"
  "mobileKitText (floatingDetailsUIContentManager exampleWorldWithReading) = Some 14"
  "startMobileKitButton (floatingDetailsUIContentManager exampleWorldWithReading) = Some 12"
  "startMobileKitButtonText (floatingDetailsUIContentManager exampleWorldWithReading) = Some 13"
  "mobileKitManagerSceneObject (floatingDetailsUIContentManager exampleWorldWithReading) = Some 11"
  "fd_mobileKitManager (floatingDetailsUIContentManager exampleWorldWithReading)"
  "mapComponent (floatingDetailsUIContentManager exampleWorldWithReading) \<or>
   mobileKitPin (floatingDetailsUIContentManager exampleWorldWithReading) = None"
  "mobileKitText (floatingDetailsUIContentManager exampleWorldAtOrigin) = Some 14"
  "startMobileKitButton (floatingDetailsUIContentManager exampleWorldAtOrigin) = Some 12"
  "startMobileKitButtonText (floatingDetailsUIContentManager exampleWorldAtOrigin) = Some 13"
  "mobileKitManagerSceneObject (floatingDetailsUIContentManager exampleWorldAtOrigin) = Some 11"
  "fd_mobileKitManager (floatingDetailsUIContentManager exampleWorldAtOrigin)"
  "mapComponent (floatingDetailsUIContentManager exampleWorldAtOrigin) \<or>
   mobileKitPin (floatingDetailsUIContentManager exampleWorldAtOrigin) = None"
  by (simp_all add: exampleWorld_def exampleWorldWithReading_def exampleWorldAtOrigin_def)

lemma example_states:
  "isEditor (examplePlatform True)" "\<not> isEditor (examplePlatform False)"
  "toFixed (examplePlatform False) = toFixedDecimal"
  "\<not> enabled exampleWorld 11"
  "enabled exampleWorldAtOrigin 11"
  "mk_latitude (mobileKitManager exampleWorldAtOrigin) = JNumber 0"
  "mk_longitude (mobileKitManager exampleWorldAtOrigin) = JNumber 0"
  "mobileKitPin (floatingDetailsUIContentManager exampleWorldAtOrigin) =
     Some \<lparr>pinId = 0, pinLongitude = JNumber 5.1696, pinLatitude = JNumber 52.2175\<rparr>"
  "enabled exampleWorldWithReading 11"
  "mk_latitude (mobileKitManager exampleWorldWithReading) = JNumber 52.2175"
  "mk_longitude (mobileKitManager exampleWorldWithReading) = JNumber 5.1696"
  "mk_horizontalAccuracy (mobileKitManager exampleWorldWithReading) = JNumber 9.08"
  "mk_altitude (mobileKitManager exampleWorldWithReading) = JNumber 15.31"
  "mk_verticalAccuracy (mobileKitManager exampleWorldWithReading) = JNumber 30"
  by (simp_all add: exampleWorld_def exampleWorldWithReading_def exampleWorldAtOrigin_def
        examplePlatform_def)

lemma onUpdate_unassigned:
  "\<not> hl_locationManager (handLockedUIContentManager w) \<Longrightarrow> onUpdate P w = (None, w, [])"
  by (simp add: onUpdate_def seqAll_Cons seqAll_Nil andThen_def updateGPSStatusIndicator_unchanged
        updateLocationTextElements_def updateCompassRotation_def skip_def Let_def)


text \<open>Inputs that a null check guards.\<close>

lemma updateLocationTextElements_result:
  "outcome (updateLocationTextElements P w) = None"
  "hl_locationManager (handLockedUIContentManager w) \<Longrightarrow>
   effects (updateLocationTextElements P w) =
     textWrites
       [(sourceValueText (handLockedUIContentManager w),
         getShortLocationSource (locationSource (locationManager w))),
        (accuracyValueText (handLockedUIContentManager w),
         toFixed P (lm_horizontalAccuracy (locationManager w)) 0 @ ''m''),
        (headingValueText (handLockedUIContentManager w),
         toFixed P (heading (locationManager w)) 0 @ degreeSuffix)]"
  by (cases "sourceValueText (handLockedUIContentManager w)";
      cases "accuracyValueText (handLockedUIContentManager w)";
      cases "headingValueText (handLockedUIContentManager w)";
      simp add: updateLocationTextElements_def Let_def exec textWrites_def)+

lemma updateCompassRotation_result:
  "outcome (updateCompassRotation w) = None"
  "\<not> hl_locationManager (handLockedUIContentManager w) \<or>
   compassImage (handLockedUIContentManager w) = None \<Longrightarrow>
   updateCompassRotation w = (None, w, [])"
  by (cases "compassImage (handLockedUIContentManager w)";
      auto simp add: updateCompassRotation_def Let_def skip_def)+

lemma onUpdate_returns: "outcome (onUpdate P w) = None"
  by (simp add: onUpdate_def exec updateLocationTextElements_result(1) updateCompassRotation_result(1))

lemma unassigned_map:
  "\<not> mapComponent (floatingDetailsUIContentManager w) \<Longrightarrow> updateMobileKitPin P w = (None, w, [])"
  "\<not> mapComponent (floatingDetailsUIContentManager w) \<Longrightarrow> removeMobileKitPin w = (None, w, [])"
  by (simp_all add: updateMobileKitPin_def removeMobileKitPin_def Let_def skip_def
        split: option.splits)

lemma unassigned_locationManager:
  assumes "\<not> hl_locationManager (handLockedUIContentManager w)"
  shows "updateGPSStatusIndicator w = (None, w, [])"
    and "updateLocationTextElements P w = (None, w, [])"
    and "updateCompassRotation w = (None, w, [])"
  using assms
  by (simp_all add: updateGPSStatusIndicator_def updateLocationTextElements_def
        updateCompassRotation_def Let_def skip_def)

lemma unassigned_target_image:
  assumes "hl_locationManager (handLockedUIContentManager w)"
    and "locationSource (locationManager w) \<noteq> lastLocationSource (handLockedUIContentManager w)"
    and "getGPSStatusImage (handLockedUIContentManager w) (locationSource (locationManager w)) = None"
  shows "effects (updateGPSStatusIndicator w) =
     map (\<lambda>i. SetEnabled i False) (statusImages (handLockedUIContentManager w)) @
     [Print (''updateGPSStatusIndicator() - Warning: No image found for GPS status: ''
             @ locationSource (locationManager w))]"
  using assms by (simp add: updateGPSStatusIndicator_changed)

lemma unassigned_frames:
  "fp_floatingDetailsUIFrame (floatingDetailsUIPresentationManager w) = None \<Longrightarrow>
   closeButtonPressed w =
     (None, w, [Print ''closeButtonPressed() - Warning: floatingDetailsUIFrame is not assigned.''])"
  "hp_floatingDetailsUIFrame (handLockedUIPresentationManager w) = None \<Longrightarrow>
   detailsButtonPressed P w =
     (None, w, [Print ''detailsButtonPressed() - Warning: floatingDetailsUIFrame is not assigned.''])"
  "handLockedUIBackPlate (handLockedUIPresentationManager w) = None \<Longrightarrow>
   positionUI P tr w =
     (None, w, [Print ''positionUI() - Warning: handLockedUIBackPlate is not assigned.''])"
  by (simp_all add: closeButtonPressed_def detailsButtonPressed_def positionUI_def print_def Let_def)
section \<open>The secondary adapter: sparse update\<close>

text \<open>
  C1. Whenever the payload of an inbound message parses to an object, the callback leaves
  the MobileKitManager with: under each of the five fields, the value the object holds
  under the field's key if the key is present, and the field's prior value if it is
  absent; nothing else of the manager changes. This holds whatever the refresh of the
  display does afterwards.
\<close>

theorem secondary_message_updates_fields_present:
  assumes "JSON_parse P response = Inr (JObject kvs)"
  shows "mobileKitManager (after (onGPSLocationResponse P response w)) =
     (mobileKitManager w)
       \<lparr>mk_latitude :=
          (case map_of kvs ''latitude'' of None \<Rightarrow> mk_latitude (mobileKitManager w) | Some v \<Rightarrow> v),
        mk_longitude :=
          (case map_of kvs ''longitude'' of None \<Rightarrow> mk_longitude (mobileKitManager w) | Some v \<Rightarrow> v),
        mk_horizontalAccuracy :=
          (case map_of kvs ''horizontal_accuracy'' of
             None \<Rightarrow> mk_horizontalAccuracy (mobileKitManager w) | Some v \<Rightarrow> v),
        mk_altitude :=
          (case map_of kvs ''altitude'' of None \<Rightarrow> mk_altitude (mobileKitManager w) | Some v \<Rightarrow> v),
        mk_verticalAccuracy :=
          (case map_of kvs ''vertical_accuracy'' of
             None \<Rightarrow> mk_verticalAccuracy (mobileKitManager w) | Some v \<Rightarrow> v)\<rparr>"
  using assms
  by (simp add: onGPSLocationResponse_def parseAndStore_object exec split: option.splits)

text \<open>
  The scenario of C1: the first message carries latitude, longitude and horizontal
  accuracy, the second the altitude; after both, received first of all, the four fields
  hold the values sent and the vertical accuracy is still 0.
\<close>

theorem secondary_message_scenario_witness:
  "JSON_parse (examplePlatform False) firstMessage =
     Inr (JObject [(''latitude'', JNumber 52.2175), (''longitude'', JNumber 5.1696),
                   (''horizontal_accuracy'', JNumber 9.08)]) \<and>
   JSON_parse (examplePlatform False) secondMessage = Inr (JObject [(''altitude'', JNumber 15.31)]) \<and>
   mobileKitManager
     (after (onGPSLocationResponse (examplePlatform False) secondMessage
       (after (onGPSLocationResponse (examplePlatform False) firstMessage exampleWorld)))) =
     \<lparr>mk_floatingDetailsUIContentManager = True,
      mk_latitude = JNumber 52.2175, mk_longitude = JNumber 5.1696,
      mk_horizontalAccuracy = JNumber 9.08, mk_altitude = JNumber 15.31,
      mk_verticalAccuracy = JNumber 0\<rparr>"
proof -
  note first = secondary_message_updates_fields_present
    [OF example_messages(1), of exampleWorld]
  note second = secondary_message_updates_fields_present
    [OF example_messages(2),
     of "after (onGPSLocationResponse (examplePlatform False) firstMessage exampleWorld)"]
  show ?thesis
    unfolding second first by (simp add: example_messages exampleWorld_def)
qed


section \<open>The detailed panel: display of the secondary source\<close>

text \<open>
  C2 at two scenes with one input of the secondary display not assigned.
  \<^item> The scene as it starts in the editor, every input assigned but the text of the
    secondary source (\<open>mobileKitText\<close>), the button active. C2 has the refresh show the message
    of the simulated environment and disable the button. \<open>updateMobileKitText\<close> writes the text
    first, with no null check, so it throws a TypeError on its first statement and changes
    nothing: the refresh at start does the location text and then throws, and the button,
    which is assigned, is left active.
  \<^item> On the device, the MobileKitManager started, the coordinates at (0, 0), a pin held and on
    the map, every input assigned but the text of the button (\<open>startMobileKitButtonText\<close>).
    C2 has the refresh remove the pin. \<open>updateMobileKitText\<close> sets the message and the button,
    throws a TypeError on the tint of the button's text, and never reaches
    \<open>removeMobileKitPin\<close>: the pin stays held and on the map.

  The sibling \<open>updateLocationText\<close> guards its text and returns.
\<close>

theorem refresh_throws_on_unassigned_text:
  "atComponentStart exampleWorldWithoutMobileKitText \<and>
   mobileKitText (floatingDetailsUIContentManager exampleWorldWithoutMobileKitText) = None \<and>
   startMobileKitButton (floatingDetailsUIContentManager exampleWorldWithoutMobileKitText) = Some 12 \<and>
   inactive exampleWorldWithoutMobileKitText 12 = False \<and>
   updateMobileKitText (examplePlatform True) exampleWorldWithoutMobileKitText =
     (Some TypeError, exampleWorldWithoutMobileKitText, []) \<and>
   dispatch (examplePlatform True) FloatingDetailsStart exampleWorldWithoutMobileKitText =
     (Some TypeError,
      exampleWorldWithoutMobileKitText
        \<lparr>textString := (textString exampleWorldWithoutMobileKitText)(10 := locationTextAtStart)\<rparr>,
      [SetText 10 locationTextAtStart]) \<and>
   inactive
     (after (dispatch (examplePlatform True) FloatingDetailsStart
        exampleWorldWithoutMobileKitText)) 12 = False \<and>
   startMobileKitButtonText (floatingDetailsUIContentManager exampleWorldAtOriginWithoutButtonText) =
     None \<and>
   mobileKitPin (floatingDetailsUIContentManager exampleWorldAtOriginWithoutButtonText) =
     Some \<lparr>pinId = 0, pinLongitude = JNumber 5.1696, pinLatitude = JNumber 52.2175\<rparr> \<and>
   outcome (updateContent (examplePlatform False) exampleWorldAtOriginWithoutButtonText) =
     Some TypeError \<and>
   effects (updateContent (examplePlatform False) exampleWorldAtOriginWithoutButtonText) =
     [SetText 10 locationTextAtStart, SetText 14 ''No Mobile Kit data'', SetInactive 12 True] \<and>
   mobileKitPin (floatingDetailsUIContentManager
     (after (updateContent (examplePlatform False) exampleWorldAtOriginWithoutButtonText))) =
     Some \<lparr>pinId = 0, pinLongitude = JNumber 5.1696, pinLatitude = JNumber 52.2175\<rparr> \<and>
   mapPins (mapObject
     (after (updateContent (examplePlatform False) exampleWorldAtOriginWithoutButtonText))) =
     [\<lparr>pinId = 0, pinLongitude = JNumber 5.1696, pinLatitude = JNumber 52.2175\<rparr>]"
proof -
  let ?P = "examplePlatform True"
  let ?w = "exampleWorldWithoutMobileKitText"
  let ?w1 = "?w\<lparr>textString := (textString ?w)(10 := locationTextAtStart)\<rparr>"
  have start: "atComponentStart ?w"
    by (simp add: atComponentStart_def exampleWorldWithoutMobileKitText_def exampleWorld_def
          newLocationManager_def newMobileKitManager_def newHandLockedUIContentManager_def
          newFloatingDetailsUIContentManager_def)
  have scene: "mobileKitText (floatingDetailsUIContentManager ?w) = None"
    "startMobileKitButton (floatingDetailsUIContentManager ?w) = Some 12"
    "inactive ?w 12 = False"
    by (simp_all add: exampleWorldWithoutMobileKitText_def exampleWorld_def)
  have thrown: "updateMobileKitText ?P w = (Some TypeError, w, [])"
    if "mobileKitText (floatingDetailsUIContentManager w) = None" for w
    using that example_states(1)
    by (simp add: updateMobileKitText_def Let_def seqAll_Cons andThen_def setText_def)
  have location: "updateLocationText ?P ?w = (None, ?w1, [SetText 10 locationTextAtStart])"
    by (simp add: updateLocationText_def Let_def setText_def locationTextAtStart_def
          exampleWorldWithoutMobileKitText_def exampleWorld_def examplePlatform_def
          toFixedDecimal_examples [simplified])
  have "mobileKitText (floatingDetailsUIContentManager ?w1) = None"
    using scene(1) by simp
  then have "updateMobileKitText ?P ?w1 = (Some TypeError, ?w1, [])"
    by (rule thrown)
  with location have refresh: "dispatch ?P FloatingDetailsStart ?w =
      (Some TypeError, ?w1, [SetText 10 locationTextAtStart])"
    by (simp add: updateContent_steps andThen_def)
  have first: "atComponentStart ?w \<and>
    mobileKitText (floatingDetailsUIContentManager ?w) = None \<and>
    startMobileKitButton (floatingDetailsUIContentManager ?w) = Some 12 \<and>
    inactive ?w 12 = False \<and>
    updateMobileKitText ?P ?w = (Some TypeError, ?w, []) \<and>
    dispatch ?P FloatingDetailsStart ?w = (Some TypeError, ?w1, [SetText 10 locationTextAtStart]) \<and>
    inactive (after (dispatch ?P FloatingDetailsStart ?w)) 12 = False"
    using start scene thrown [OF scene(1)] unfolding refresh by simp
  let ?D = "examplePlatform False"
  let ?v = "exampleWorldAtOriginWithoutButtonText"
  let ?pin = "\<lparr>pinId = 0, pinLongitude = JNumber 5.1696, pinLatitude = JNumber 52.2175\<rparr>"
  let ?v1 = "?v\<lparr>textString := (textString ?v)(10 := locationTextAtStart)\<rparr>"
  let ?v3 = "?v1\<lparr>textString := (textString ?v1)(14 := ''No Mobile Kit data''),
                  inactive := (inactive ?v1)(12 := True)\<rparr>"
  have held: "startMobileKitButtonText (floatingDetailsUIContentManager ?v) = None"
    "mobileKitPin (floatingDetailsUIContentManager ?v) = Some ?pin"
    "mapPins (mapObject ?v) = [?pin]"
    by (simp_all add: exampleWorldAtOriginWithoutButtonText_def exampleWorldAtOrigin_def
          exampleWorld_def)
  have location': "updateLocationText ?D ?v = (None, ?v1, [SetText 10 locationTextAtStart])"
    by (simp add: updateLocationText_def Let_def setText_def locationTextAtStart_def
          exampleWorldAtOriginWithoutButtonText_def exampleWorldAtOrigin_def exampleWorld_def
          examplePlatform_def toFixedDecimal_examples [simplified])
  have "updateMobileKitText ?D ?v1 =
      (Some TypeError, ?v3, [SetText 14 ''No Mobile Kit data'', SetInactive 12 True])"
    by (simp add: updateMobileKitText_def Let_def seqAll_Cons andThen_def setText_def
          setInactive_def setTextFillColor_def exampleWorldAtOriginWithoutButtonText_def
          exampleWorldAtOrigin_def exampleWorld_def examplePlatform_def)
  with location' have "updateContent ?D ?v =
      (Some TypeError, ?v3,
       [SetText 10 locationTextAtStart, SetText 14 ''No Mobile Kit data'', SetInactive 12 True])"
    by (simp add: updateContent_steps andThen_def)
  with held have second:
    "startMobileKitButtonText (floatingDetailsUIContentManager ?v) = None \<and>
     mobileKitPin (floatingDetailsUIContentManager ?v) = Some ?pin \<and>
     outcome (updateContent ?D ?v) = Some TypeError \<and>
     effects (updateContent ?D ?v) =
       [SetText 10 locationTextAtStart, SetText 14 ''No Mobile Kit data'', SetInactive 12 True] \<and>
     mobileKitPin (floatingDetailsUIContentManager (after (updateContent ?D ?v))) = Some ?pin \<and>
     mapPins (mapObject (after (updateContent ?D ?v))) = [?pin]"
    by simp
  from first second show ?thesis
    by blast
qed

text \<open>
  With the text, the button, the button's text, the scene object of the MobileKitManager
  and the MobileKitManager assigned (and a pin held only if a map is assigned), the refresh
  of the detailed panel returns normally and leaves, by the state it finds:
  in the editor, the message "Mobile Kit unavailable in editor", the button inactive and no
  pin; with the scene object disabled, "Mobile Kit available on device", the button active
  and no pin; enabled with latitude and longitude both 0, "No Mobile Kit data", the button
  inactive, no pin, and the pin there was removed from the map; enabled with other
  coordinates and five numbers, the five formatted lines and the button active.
\<close>

lemma detailed_panel_secondary_display:
  assumes t: "mobileKitText (floatingDetailsUIContentManager w) = Some t"
    and b: "startMobileKitButton (floatingDetailsUIContentManager w) = Some b"
    and bt: "startMobileKitButtonText (floatingDetailsUIContentManager w) = Some bt"
    and so: "mobileKitManagerSceneObject (floatingDetailsUIContentManager w) = Some so"
    and mk: "fd_mobileKitManager (floatingDetailsUIContentManager w)"
    and pin: "mapComponent (floatingDetailsUIContentManager w) \<or>
         mobileKitPin (floatingDetailsUIContentManager w) = None"
  shows
   "(isEditor P \<longrightarrow>
       outcome (updateContent P w) = None \<and>
       textString (after (updateContent P w)) t = ''Mobile Kit unavailable in editor'' \<and>
       inactive (after (updateContent P w)) b = True \<and>
       textFillColor (after (updateContent P w)) bt = lightGrey \<and>
       mobileKitPin (floatingDetailsUIContentManager (after (updateContent P w))) = None \<and>
       (\<forall>pin. mobileKitPin (floatingDetailsUIContentManager w) = Some pin \<longrightarrow>
          RemoveMapPin pin \<in> set (effects (updateContent P w)))) \<and>
    (\<not> isEditor P \<and> \<not> enabled w so \<longrightarrow>
       outcome (updateContent P w) = None \<and>
       textString (after (updateContent P w)) t = ''Mobile Kit available on device'' \<and>
       inactive (after (updateContent P w)) b = False \<and>
       textFillColor (after (updateContent P w)) bt = white \<and>
       mobileKitPin (floatingDetailsUIContentManager (after (updateContent P w))) = None \<and>
       (\<forall>pin. mobileKitPin (floatingDetailsUIContentManager w) = Some pin \<longrightarrow>
          RemoveMapPin pin \<in> set (effects (updateContent P w)))) \<and>
    (\<not> isEditor P \<and> enabled w so \<and>
     mk_latitude (mobileKitManager w) = JNumber 0 \<and> mk_longitude (mobileKitManager w) = JNumber 0 \<longrightarrow>
       outcome (updateContent P w) = None \<and>
       textString (after (updateContent P w)) t = ''No Mobile Kit data'' \<and>
       inactive (after (updateContent P w)) b = True \<and>
       textFillColor (after (updateContent P w)) bt = lightGrey \<and>
       mobileKitPin (floatingDetailsUIContentManager (after (updateContent P w))) = None \<and>
       (\<forall>pin. mobileKitPin (floatingDetailsUIContentManager w) = Some pin \<longrightarrow>
          RemoveMapPin pin \<in> set (effects (updateContent P w)))) \<and>
    (\<not> isEditor P \<and> enabled w so \<and>
     \<not> (mk_latitude (mobileKitManager w) = JNumber 0 \<and> mk_longitude (mobileKitManager w) = JNumber 0) \<and>
     mk_latitude (mobileKitManager w) = JNumber la \<and>
     mk_longitude (mobileKitManager w) = JNumber lo \<and>
     mk_horizontalAccuracy (mobileKitManager w) = JNumber ha \<and>
     mk_altitude (mobileKitManager w) = JNumber al \<and>
     mk_verticalAccuracy (mobileKitManager w) = JNumber va \<longrightarrow>
       outcome (updateContent P w) = None \<and>
       textString (after (updateContent P w)) t =
         ''Latitude: '' @ toFixed P la 6 @
         ''\<newline>Longitude: '' @ toFixed P lo 6 @
         ''\<newline>Horizontal Accuracy: '' @ toFixed P ha 0 @ ''m'' @
         ''\<newline>Altitude: '' @ toFixed P al 0 @ ''m'' @
         ''\<newline>Vertical Accuracy: '' @ toFixed P va 0 @ ''m'' \<and>
       inactive (after (updateContent P w)) b = False \<and>
       textFillColor (after (updateContent P w)) bt = lightGrey)"
proof -
  note fixed = refresh_with_fixed_message [OF t b bt so mk pin]
  have editor:
    "outcome (updateContent P w) = None \<and>
       textString (after (updateContent P w)) t = ''Mobile Kit unavailable in editor'' \<and>
       inactive (after (updateContent P w)) b = True \<and>
       textFillColor (after (updateContent P w)) bt = lightGrey \<and>
       mobileKitPin (floatingDetailsUIContentManager (after (updateContent P w))) = None \<and>
       (\<forall>pin. mobileKitPin (floatingDetailsUIContentManager w) = Some pin \<longrightarrow>
          RemoveMapPin pin \<in> set (effects (updateContent P w)))"
    if "isEditor P"
    using that by (intro fixed) (simp_all add: noMobileKitData_def updateMobileKitText_def Let_def)
  have disabled:
    "outcome (updateContent P w) = None \<and>
       textString (after (updateContent P w)) t = ''Mobile Kit available on device'' \<and>
       inactive (after (updateContent P w)) b = False \<and>
       textFillColor (after (updateContent P w)) bt = white \<and>
       mobileKitPin (floatingDetailsUIContentManager (after (updateContent P w))) = None \<and>
       (\<forall>pin. mobileKitPin (floatingDetailsUIContentManager w) = Some pin \<longrightarrow>
          RemoveMapPin pin \<in> set (effects (updateContent P w)))"
    if "\<not> isEditor P" "\<not> enabled w so"
    using that so
    by (intro fixed) (simp_all add: noMobileKitData_def updateMobileKitText_def Let_def)
  have zero:
    "outcome (updateContent P w) = None \<and>
       textString (after (updateContent P w)) t = ''No Mobile Kit data'' \<and>
       inactive (after (updateContent P w)) b = True \<and>
       textFillColor (after (updateContent P w)) bt = lightGrey \<and>
       mobileKitPin (floatingDetailsUIContentManager (after (updateContent P w))) = None \<and>
       (\<forall>pin. mobileKitPin (floatingDetailsUIContentManager w) = Some pin \<longrightarrow>
          RemoveMapPin pin \<in> set (effects (updateContent P w)))"
    if "\<not> isEditor P" "enabled w so"
      "mk_latitude (mobileKitManager w) = JNumber 0" "mk_longitude (mobileKitManager w) = JNumber 0"
    using that so mk
    by (intro fixed) (simp_all add: noMobileKitData_def updateMobileKitText_def Let_def)
  have active:
    "outcome (updateContent P w) = None \<and>
       textString (after (updateContent P w)) t =
         ''Latitude: '' @ toFixed P la 6 @
         ''\<newline>Longitude: '' @ toFixed P lo 6 @
         ''\<newline>Horizontal Accuracy: '' @ toFixed P ha 0 @ ''m'' @
         ''\<newline>Altitude: '' @ toFixed P al 0 @ ''m'' @
         ''\<newline>Vertical Accuracy: '' @ toFixed P va 0 @ ''m'' \<and>
       inactive (after (updateContent P w)) b = False \<and>
       textFillColor (after (updateContent P w)) bt = lightGrey"
    if on_device: "\<not> isEditor P" "enabled w so"
      "\<not> (mk_latitude (mobileKitManager w) = JNumber 0 \<and> mk_longitude (mobileKitManager w) = JNumber 0)"
      and numbers: "mk_latitude (mobileKitManager w) = JNumber la"
      "mk_longitude (mobileKitManager w) = JNumber lo"
      "mk_horizontalAccuracy (mobileKitManager w) = JNumber ha"
      "mk_altitude (mobileKitManager w) = JNumber al"
      "mk_verticalAccuracy (mobileKitManager w) = JNumber va"
  proof -
    let ?s = "''Latitude: '' @ toFixed P la 6 @
         ''\<newline>Longitude: '' @ toFixed P lo 6 @
         ''\<newline>Horizontal Accuracy: '' @ toFixed P ha 0 @ ''m'' @
         ''\<newline>Altitude: '' @ toFixed P al 0 @ ''m'' @
         ''\<newline>Vertical Accuracy: '' @ toFixed P va 0 @ ''m''"
    let ?w1 = "after (updateLocationText P w)"
    have w1: "floatingDetailsUIContentManager ?w1 = floatingDetailsUIContentManager w"
      "enabled ?w1 = enabled w" "mobileKitManager ?w1 = mobileKitManager w"
      by simp_all
    have formatted: "mobileKitDataText P (mobileKitManager w) = Inr ?s"
      using numbers by (simp add: mobileKitDataText_def)
    have r: "updateMobileKitText P ?w1 =
       seqAll [setText (Some t) ?s, setInactive (Some b) False, setTextFillColor (Some bt) lightGrey,
               updateMobileKitPin P] ?w1"
      using on_device numbers(1,2) so mk t b bt formatted w1
      by (auto simp add: updateMobileKitText_def Let_def)
    let ?w3 = "?w1\<lparr>textString := (textString ?w1)(t := ?s),
                    inactive := (inactive ?w1)(b := False),
                    textFillColor := (textFillColor ?w1)(bt := lightGrey)\<rparr>"
    have w3: "mobileKitManagerSceneObject (floatingDetailsUIContentManager ?w3) = Some so"
      "fd_mobileKitManager (floatingDetailsUIContentManager ?w3)"
      using so mk by simp_all
    have ok3: "outcome (updateMobileKitPin P ?w3) = None"
      by (rule updateMobileKitPin_returns [OF w3])
    have w4: "mobileKitManagerSceneObject
        (floatingDetailsUIContentManager (after (updateMobileKitPin P ?w3))) = Some so"
      "fd_mobileKitManager (floatingDetailsUIContentManager (after (updateMobileKitPin P ?w3)))"
      using w3 by (simp_all add: updateMobileKitPin_def Let_def)
    have ok4: "outcome (updateMobileKitPin P (after (updateMobileKitPin P ?w3))) = None"
      by (rule updateMobileKitPin_returns [OF w4])
    have block: "outcome (updateMobileKitText P ?w1) = None"
      "after (updateMobileKitText P ?w1) = after (updateMobileKitPin P ?w3)"
      unfolding r using ok3 by (simp_all add: exec)
    show ?thesis
      unfolding updateContent_steps
      using block ok4 by (simp add: exec)
  qed
  from editor disabled zero active show ?thesis
    by blast
qed

text \<open>The example scene, one state for each of the four branches.\<close>

lemma detailed_panel_examples:
  "textString (after (updateContent (examplePlatform True) exampleWorldWithReading)) 14 =
     ''Mobile Kit unavailable in editor'' \<and>
   inactive (after (updateContent (examplePlatform True) exampleWorldWithReading)) 12 \<and>
   textString (after (updateContent (examplePlatform False) exampleWorld)) 14 =
     ''Mobile Kit available on device'' \<and>
   \<not> inactive (after (updateContent (examplePlatform False) exampleWorld)) 12 \<and>
   textString (after (updateContent (examplePlatform False) exampleWorldAtOrigin)) 14 =
     ''No Mobile Kit data'' \<and>
   inactive (after (updateContent (examplePlatform False) exampleWorldAtOrigin)) 12 \<and>
   mobileKitPin (floatingDetailsUIContentManager
     (after (updateContent (examplePlatform False) exampleWorldAtOrigin))) = None \<and>
   RemoveMapPin \<lparr>pinId = 0, pinLongitude = JNumber 5.1696, pinLatitude = JNumber 52.2175\<rparr>
     \<in> set (effects (updateContent (examplePlatform False) exampleWorldAtOrigin)) \<and>
   textString (after (updateContent (examplePlatform False) exampleWorldWithReading)) 14 =
     ''Latitude: 52.217500\<newline>Longitude: 5.169600\<newline>Horizontal Accuracy: 9m'' @
     ''\<newline>Altitude: 15m\<newline>Vertical Accuracy: 30m'' \<and>
   \<not> inactive (after (updateContent (examplePlatform False) exampleWorldWithReading)) 12"
proof -
  note in_editor = detailed_panel_secondary_display
    [OF example_wiring(7-12), of "examplePlatform True"]
  note switched_off = detailed_panel_secondary_display
    [OF example_wiring(1-6), of "examplePlatform False"]
  note no_data = detailed_panel_secondary_display
    [OF example_wiring(13-18), of "examplePlatform False"]
  note active = detailed_panel_secondary_display
    [OF example_wiring(7-12), of "examplePlatform False" "52.2175" "5.1696" "9.08" "15.31" "30"]
  have 1: "textString (after (updateContent (examplePlatform True) exampleWorldWithReading)) 14 =
      ''Mobile Kit unavailable in editor'' \<and>
    inactive (after (updateContent (examplePlatform True) exampleWorldWithReading)) 12"
    using in_editor example_states(1) by blast
  have 2: "textString (after (updateContent (examplePlatform False) exampleWorld)) 14 =
      ''Mobile Kit available on device'' \<and>
    \<not> inactive (after (updateContent (examplePlatform False) exampleWorld)) 12"
    using switched_off example_states(2,4) by blast
  have 3: "textString (after (updateContent (examplePlatform False) exampleWorldAtOrigin)) 14 =
      ''No Mobile Kit data'' \<and>
    inactive (after (updateContent (examplePlatform False) exampleWorldAtOrigin)) 12 \<and>
    mobileKitPin (floatingDetailsUIContentManager
      (after (updateContent (examplePlatform False) exampleWorldAtOrigin))) = None \<and>
    RemoveMapPin \<lparr>pinId = 0, pinLongitude = JNumber 5.1696, pinLatitude = JNumber 52.2175\<rparr>
      \<in> set (effects (updateContent (examplePlatform False) exampleWorldAtOrigin))"
    using no_data example_states(2,5,6,7,8) by blast
  have "JNumber 52.2175 \<noteq> JNumber 0"
    by simp
  then have 4: "textString (after (updateContent (examplePlatform False) exampleWorldWithReading)) 14 =
      ''Latitude: '' @ toFixed (examplePlatform False) 52.2175 6 @
      ''\<newline>Longitude: '' @ toFixed (examplePlatform False) 5.1696 6 @
      ''\<newline>Horizontal Accuracy: '' @ toFixed (examplePlatform False) 9.08 0 @ ''m'' @
      ''\<newline>Altitude: '' @ toFixed (examplePlatform False) 15.31 0 @ ''m'' @
      ''\<newline>Vertical Accuracy: '' @ toFixed (examplePlatform False) 30 0 @ ''m'' \<and>
    \<not> inactive (after (updateContent (examplePlatform False) exampleWorldWithReading)) 12"
    using active example_states(2,9-14) by metis
  show ?thesis
    using 1 2 3 4 by (simp add: example_states(3) toFixedDecimal_examples [simplified])
qed


section \<open>The primary adapter: scheduling of the position pull\<close>

text \<open>
  C3, as the code has it. A position pull issues the request and starts the timer of the
  next pull in the same call, with delay 1, while the request is pending: the timer does
  not wait for the callback. Neither callback of the request starts a timer or changes the
  one that runs; the error callback changes nothing at all.
\<close>

theorem next_pull_timer_started_with_request:
  "effects (processGeoPosition w) = [GetCurrentPosition, ResetDelayedCallback 1] \<and>
   repeatProcessGeoPositionEvent (locationManager (after (processGeoPosition w))) = Some 1 \<and>
   pendingPositionRequests (locationManager (after (processGeoPosition w))) =
     Suc (pendingPositionRequests (locationManager w)) \<and>
   filter isTimerStart (effects (onGeoPosition P geoPosition w)) = [] \<and>
   repeatProcessGeoPositionEvent (locationManager (after (onGeoPosition P geoPosition w))) =
     repeatProcessGeoPositionEvent (locationManager w) \<and>
   filter isTimerStart (effects (onGeoPositionError error w)) = [] \<and>
   after (onGeoPositionError error w) = w"
  by (simp add: processGeoPosition_def onGeoPosition_def onGeoPositionError_def
        effects_andThen after_andThen storeGeoPosition_def)

text \<open>
  C3 as stated fails: after one pull the timer of the next pull runs while the request is
  still pending, and when the timer fires before the request has resolved, two requests are
  pending at once.
\<close>

theorem position_fetches_overlap_counterexample:
  "pendingPositionRequests (locationManager (fst (run (examplePlatform False)
      [LocationManagerStart, DelayedCallbackFires, DelayedCallbackFires] exampleWorld))) = 2 \<and>
   repeatProcessGeoPositionEvent (locationManager (after (processGeoPosition exampleWorld))) = Some 1 \<and>
   pendingPositionRequests (locationManager (after (processGeoPosition exampleWorld))) = 1"
  by (simp add: configureLocationManager_def processGeoPosition_def delayedCallbackDisarmed_def
        andThen_def exampleWorld_def)


section \<open>The primary adapter: a successful position request\<close>

text \<open>
  C4, as the code has it. The success callback overwrites six fields of the LocationManager
  from the incoming position: source, latitude, longitude, horizontal accuracy, altitude
  and vertical accuracy. The heading keeps its prior value (only the orientation callback
  writes it), and so does everything else of the manager. The consumers are notified
  after the six writes: when the references are assigned, the first effect of the callback
  is the text of the detailed panel, made of the six new values and the prior heading.
\<close>

theorem position_success_overwrites_six_fields:
  "locationManager (after (onGeoPosition P geoPosition w)) =
     (locationManager w)
       \<lparr>locationSource := gp_locationSource geoPosition,
        lm_latitude := gp_latitude geoPosition,
        lm_longitude := gp_longitude geoPosition,
        lm_horizontalAccuracy := gp_horizontalAccuracy geoPosition,
        lm_altitude := gp_altitude geoPosition,
        lm_verticalAccuracy := gp_verticalAccuracy geoPosition\<rparr> \<and>
   (lm_floatingDetailsUIContentManager (locationManager w) \<and>
    fd_locationManager (floatingDetailsUIContentManager w) \<and>
    locationDataText (floatingDetailsUIContentManager w) = Some t \<longrightarrow>
      take 1 (effects (onGeoPosition P geoPosition w)) =
        [SetText t
           (''Source: '' @ gp_locationSource geoPosition @
            ''\<newline>Latitude: '' @ toFixed P (gp_latitude geoPosition) 6 @
            ''\<newline>Longitude: '' @ toFixed P (gp_longitude geoPosition) 6 @
            ''\<newline>Horizontal Accuracy: '' @ toFixed P (gp_horizontalAccuracy geoPosition) 0 @ ''m'' @
            ''\<newline>Altitude: '' @ toFixed P (gp_altitude geoPosition) 0 @ ''m'' @
            ''\<newline>Vertical Accuracy: '' @ toFixed P (gp_verticalAccuracy geoPosition) 0 @ ''m'' @
            ''\<newline>Heading: '' @ toFixed P (heading (locationManager w)) 0 @ degreeSuffix)])"
proof -
  let ?w1 = "after (storeGeoPosition geoPosition w)"
  have stored: "locationManager ?w1 =
     (locationManager w)
       \<lparr>locationSource := gp_locationSource geoPosition,
        lm_latitude := gp_latitude geoPosition,
        lm_longitude := gp_longitude geoPosition,
        lm_horizontalAccuracy := gp_horizontalAccuracy geoPosition,
        lm_altitude := gp_altitude geoPosition,
        lm_verticalAccuracy := gp_verticalAccuracy geoPosition\<rparr>"
    and same: "floatingDetailsUIContentManager ?w1 = floatingDetailsUIContentManager w"
    by (simp_all add: storeGeoPosition_def)
  have kept_fields: "locationManager (after (onGeoPosition P geoPosition w)) = locationManager ?w1"
    by (simp add: onGeoPosition_def after_andThen)
  have shown: "take 1 (effects (onGeoPosition P geoPosition w)) =
      take 1 (effects (updateLocationText P ?w1))"
    if "lm_floatingDetailsUIContentManager (locationManager w)"
      "fd_locationManager (floatingDetailsUIContentManager w)"
      "locationDataText (floatingDetailsUIContentManager w) = Some t"
    using that stored same
    by (simp add: onGeoPosition_def newLocationManagerDataAvailable_def updateContent_def exec
          updateLocationText_effects)
  show ?thesis
    using kept_fields stored same shown
    by (auto simp add: updateLocationText_effects)
qed

text \<open>C4, amended, on the example scene and the example position.\<close>

theorem position_success_witness:
  "locationManager (after (onGeoPosition (examplePlatform False) examplePosition exampleWorld)) =
     \<lparr>lm_floatingDetailsUIContentManager = True, locationSource = ''GNSS_RECEIVER'',
      lm_latitude = 52.2175, lm_longitude = 5.1696, lm_horizontalAccuracy = 9.08,
      lm_altitude = 15.31, lm_verticalAccuracy = 30, heading = 0,
      pendingPositionRequests = 0, repeatProcessGeoPositionEvent = None\<rparr> \<and>
   take 1 (effects (onGeoPosition (examplePlatform False) examplePosition exampleWorld)) =
     [SetText 10
        (''Source: GNSS_RECEIVER\<newline>Latitude: 52.217500\<newline>Longitude: 5.169600'' @
         ''\<newline>Horizontal Accuracy: 9m\<newline>Altitude: 15m\<newline>Vertical Accuracy: 30m'' @
         ''\<newline>Heading: 0'' @ degreeSuffix)]"
proof -
  have wired: "lm_floatingDetailsUIContentManager (locationManager exampleWorld) \<and>
    fd_locationManager (floatingDetailsUIContentManager exampleWorld) \<and>
    locationDataText (floatingDetailsUIContentManager exampleWorld) = Some 10"
    by (simp add: exampleWorld_def)
  from position_success_overwrites_six_fields
    [of "examplePlatform False" examplePosition exampleWorld 10] wired
  have "locationManager (after (onGeoPosition (examplePlatform False) examplePosition exampleWorld)) =
     (locationManager exampleWorld)
       \<lparr>locationSource := gp_locationSource examplePosition,
        lm_latitude := gp_latitude examplePosition,
        lm_longitude := gp_longitude examplePosition,
        lm_horizontalAccuracy := gp_horizontalAccuracy examplePosition,
        lm_altitude := gp_altitude examplePosition,
        lm_verticalAccuracy := gp_verticalAccuracy examplePosition\<rparr>"
    and "take 1 (effects (onGeoPosition (examplePlatform False) examplePosition exampleWorld)) =
        [SetText 10
           (''Source: '' @ gp_locationSource examplePosition @
            ''\<newline>Latitude: '' @ toFixed (examplePlatform False) (gp_latitude examplePosition) 6 @
            ''\<newline>Longitude: '' @ toFixed (examplePlatform False) (gp_longitude examplePosition) 6 @
            ''\<newline>Horizontal Accuracy: '' @ toFixed (examplePlatform False) (gp_horizontalAccuracy examplePosition) 0 @ ''m'' @
            ''\<newline>Altitude: '' @ toFixed (examplePlatform False) (gp_altitude examplePosition) 0 @ ''m'' @
            ''\<newline>Vertical Accuracy: '' @ toFixed (examplePlatform False) (gp_verticalAccuracy examplePosition) 0 @ ''m'' @
            ''\<newline>Heading: '' @ toFixed (examplePlatform False) (heading (locationManager exampleWorld)) 0 @ degreeSuffix)]"
    by blast+
  then show ?thesis
    by (simp add: exampleWorld_def examplePosition_def examplePlatform_def
          toFixedDecimal_examples [simplified])
qed

text \<open>
  C4 as stated fails for the heading: the same incoming position leaves the heading at 0
  in a scene whose heading was 0 and at 90 in a scene whose heading was 90, so the heading
  is not overwritten from the position.
\<close>

theorem heading_not_from_position_counterexample:
  "heading (locationManager
     (after (onGeoPosition (examplePlatform False) examplePosition exampleWorld))) = 0 \<and>
   heading (locationManager
     (after (onGeoPosition (examplePlatform False) examplePosition
        (exampleWorld\<lparr>locationManager := (locationManager exampleWorld)\<lparr>heading := 90\<rparr>\<rparr>)))) = 90"
  by (simp add: onGeoPosition_def after_andThen storeGeoPosition_def exampleWorld_def)


section \<open>The pin of the secondary source on the map\<close>

text \<open>
  C5, as the code has it. With no map component assigned the refresh of the pin does
  nothing. With the map component and the two references to the MobileKitManager assigned,
  and the map holding the pin the content manager holds: if the display state says "no
  data", the pin, if there is one, is removed and the reference cleared; otherwise the
  pin, if there is one, is removed and a new pin is created at the current coordinates,
  whether or not they changed. Whatever events occur, the map holds at most one pin of the
  secondary source.
\<close>

theorem map_pin_refresh:
  "(pinsAsHeld w \<longrightarrow>
      pinsAsHeld (fst (run P evs w)) \<and> length (mapPins (mapObject (fst (run P evs w)))) \<le> 1) \<and>
   (\<not> mapComponent (floatingDetailsUIContentManager w) \<longrightarrow>
      updateMobileKitPin P w = (None, w, [])) \<and>
   (mapComponent (floatingDetailsUIContentManager w) \<and>
    mobileKitManagerSceneObject (floatingDetailsUIContentManager w) = Some so \<and>
    fd_mobileKitManager (floatingDetailsUIContentManager w) \<and> pinsAsHeld w \<longrightarrow>
      outcome (updateMobileKitPin P w) = None \<and>
      (noMobileKitData P w so \<longrightarrow>
         mobileKitPin (floatingDetailsUIContentManager (after (updateMobileKitPin P w))) = None \<and>
         mapPins (mapObject (after (updateMobileKitPin P w))) = [] \<and>
         effects (updateMobileKitPin P w) =
           (case mobileKitPin (floatingDetailsUIContentManager w) of
              None \<Rightarrow> [] | Some pin \<Rightarrow> [RemoveMapPin pin])) \<and>
      (\<not> noMobileKitData P w so \<longrightarrow>
         (\<exists>pin'. mobileKitPin (floatingDetailsUIContentManager (after (updateMobileKitPin P w))) =
                   Some pin' \<and>
                 pinLongitude pin' = mk_longitude (mobileKitManager w) \<and>
                 pinLatitude pin' = mk_latitude (mobileKitManager w) \<and>
                 mapPins (mapObject (after (updateMobileKitPin P w))) = [pin']) \<and>
         effects (updateMobileKitPin P w) =
           (case mobileKitPin (floatingDetailsUIContentManager w) of
              None \<Rightarrow> [] | Some pin \<Rightarrow> [RemoveMapPin pin]) @
           [CreateMapPin (mk_longitude (mobileKitManager w)) (mk_latitude (mobileKitManager w))]))"
proof -
  have at_most_one: "pinsAsHeld (fst (run P evs w)) \<and> length (mapPins (mapObject (fst (run P evs w)))) \<le> 1"
    if "pinsAsHeld w"
  proof -
    from that have "pinsAsHeld (fst (run P evs w))"
      by (rule run_held)
    then show ?thesis
      by (simp add: pinsAsHeld_def split: option.splits)
  qed
  have no_map: "updateMobileKitPin P w = (None, w, [])"
    if "\<not> mapComponent (floatingDetailsUIContentManager w)"
    using that by (simp add: updateMobileKitPin_def Let_def skip_def)
  have refresh:
    "outcome (updateMobileKitPin P w) = None \<and>
      (noMobileKitData P w so \<longrightarrow>
         mobileKitPin (floatingDetailsUIContentManager (after (updateMobileKitPin P w))) = None \<and>
         mapPins (mapObject (after (updateMobileKitPin P w))) = [] \<and>
         effects (updateMobileKitPin P w) =
           (case mobileKitPin (floatingDetailsUIContentManager w) of
              None \<Rightarrow> [] | Some pin \<Rightarrow> [RemoveMapPin pin])) \<and>
      (\<not> noMobileKitData P w so \<longrightarrow>
         (\<exists>pin'. mobileKitPin (floatingDetailsUIContentManager (after (updateMobileKitPin P w))) =
                   Some pin' \<and>
                 pinLongitude pin' = mk_longitude (mobileKitManager w) \<and>
                 pinLatitude pin' = mk_latitude (mobileKitManager w) \<and>
                 mapPins (mapObject (after (updateMobileKitPin P w))) = [pin']) \<and>
         effects (updateMobileKitPin P w) =
           (case mobileKitPin (floatingDetailsUIContentManager w) of
              None \<Rightarrow> [] | Some pin \<Rightarrow> [RemoveMapPin pin]) @
           [CreateMapPin (mk_longitude (mobileKitManager w)) (mk_latitude (mobileKitManager w))])"
    if wired: "mapComponent (floatingDetailsUIContentManager w)"
      "mobileKitManagerSceneObject (floatingDetailsUIContentManager w) = Some so"
      "fd_mobileKitManager (floatingDetailsUIContentManager w)"
      and held: "pinsAsHeld w"
  proof (cases "noMobileKitData P w so")
    case True
    then have "updateMobileKitPin P w = removeMobileKitPin w"
      by (rule updateMobileKitPin_cases(1) [OF wired])
    with True removeMobileKitPin_result [OF wired(1) held] show ?thesis
      by simp
  next
    case False
    then have "updateMobileKitPin P w = replaceMobileKitPin w"
      by (rule updateMobileKitPin_cases(2) [OF wired])
    with False replaceMobileKitPin_result [OF held] show ?thesis
      by simp
  qed
  from at_most_one no_map refresh show ?thesis
    by blast
qed

text \<open>
  C5, amended, on the example scene with a reading: the first refresh creates a pin, the
  second removes it and creates another at the same coordinates, and a refresh in the
  editor removes it.
\<close>

theorem map_pin_refresh_witness:
  "pinsAsHeld exampleWorldWithReading \<and>
   \<not> noMobileKitData (examplePlatform False) exampleWorldWithReading 11 \<and>
   effects (updateMobileKitPin (examplePlatform False) exampleWorldWithReading) =
     [CreateMapPin (JNumber 5.1696) (JNumber 52.2175)] \<and>
   mapPins (mapObject (after (updateMobileKitPin (examplePlatform False) exampleWorldWithReading))) =
     [\<lparr>pinId = 0, pinLongitude = JNumber 5.1696, pinLatitude = JNumber 52.2175\<rparr>] \<and>
   effects (updateMobileKitPin (examplePlatform False)
     (after (updateMobileKitPin (examplePlatform False) exampleWorldWithReading))) =
     [RemoveMapPin \<lparr>pinId = 0, pinLongitude = JNumber 5.1696, pinLatitude = JNumber 52.2175\<rparr>,
      CreateMapPin (JNumber 5.1696) (JNumber 52.2175)] \<and>
   mapPins (mapObject (after (updateMobileKitPin (examplePlatform False)
     (after (updateMobileKitPin (examplePlatform False) exampleWorldWithReading))))) =
     [\<lparr>pinId = 1, pinLongitude = JNumber 5.1696, pinLatitude = JNumber 52.2175\<rparr>] \<and>
   noMobileKitData (examplePlatform True) exampleWorldWithReading 11 \<and>
   effects (updateMobileKitPin (examplePlatform True)
     (after (updateMobileKitPin (examplePlatform False) exampleWorldWithReading))) =
     [RemoveMapPin \<lparr>pinId = 0, pinLongitude = JNumber 5.1696, pinLatitude = JNumber 52.2175\<rparr>] \<and>
   mapPins (mapObject (after (updateMobileKitPin (examplePlatform True)
     (after (updateMobileKitPin (examplePlatform False) exampleWorldWithReading))))) = []"
proof -
  let ?P = "examplePlatform False"
  let ?w1 = "after (updateMobileKitPin ?P exampleWorldWithReading)"
  have first: "updateMobileKitPin ?P exampleWorldWithReading =
     (None,
      exampleWorldWithReading
        \<lparr>mapObject :=
           \<lparr>mapPins = [\<lparr>pinId = 0, pinLongitude = JNumber 5.1696, pinLatitude = JNumber 52.2175\<rparr>],
            nextPinId = 1\<rparr>,
         floatingDetailsUIContentManager :=
           (floatingDetailsUIContentManager exampleWorldWithReading)
             \<lparr>mobileKitPin :=
                Some \<lparr>pinId = 0, pinLongitude = JNumber 5.1696, pinLatitude = JNumber 52.2175\<rparr>\<rparr>\<rparr>,
      [CreateMapPin (JNumber 5.1696) (JNumber 52.2175)])"
    by (simp add: updateMobileKitPin_def replaceMobileKitPin_def createMapPin_def Let_def
          exampleWorldWithReading_def exampleWorld_def examplePlatform_def)
  have second: "updateMobileKitPin ?P ?w1 =
     (None,
      exampleWorldWithReading
        \<lparr>mapObject :=
           \<lparr>mapPins = [\<lparr>pinId = 1, pinLongitude = JNumber 5.1696, pinLatitude = JNumber 52.2175\<rparr>],
            nextPinId = 2\<rparr>,
         floatingDetailsUIContentManager :=
           (floatingDetailsUIContentManager exampleWorldWithReading)
             \<lparr>mobileKitPin :=
                Some \<lparr>pinId = 1, pinLongitude = JNumber 5.1696, pinLatitude = JNumber 52.2175\<rparr>\<rparr>\<rparr>,
      [RemoveMapPin \<lparr>pinId = 0, pinLongitude = JNumber 5.1696, pinLatitude = JNumber 52.2175\<rparr>,
       CreateMapPin (JNumber 5.1696) (JNumber 52.2175)])"
    unfolding first
    by (simp add: updateMobileKitPin_def replaceMobileKitPin_def createMapPin_def removeMapPin_def
          Let_def exampleWorldWithReading_def exampleWorld_def examplePlatform_def)
  have editor: "effects (updateMobileKitPin (examplePlatform True) ?w1) =
      [RemoveMapPin \<lparr>pinId = 0, pinLongitude = JNumber 5.1696, pinLatitude = JNumber 52.2175\<rparr>] \<and>
     mapPins (mapObject (after (updateMobileKitPin (examplePlatform True) ?w1))) = []"
    unfolding first
    by (simp add: updateMobileKitPin_def removeMobileKitPin_def removeMapPin_def
          Let_def exampleWorldWithReading_def exampleWorld_def examplePlatform_def)
  from map_pin_refresh [of exampleWorldWithReading ?P "[]" 11] example_pin_facts
  have "effects (updateMobileKitPin ?P exampleWorldWithReading) =
      [CreateMapPin (JNumber 5.1696) (JNumber 52.2175)]"
    by simp
  with first second editor example_pin_facts show ?thesis
    by simp
qed

text \<open>
  C5 as stated fails when no map component is assigned: the display state has data, and
  the refresh creates no pin.
\<close>

theorem no_pin_without_map_counterexample:
  "\<not> noMobileKitData (examplePlatform False) exampleWorldWithoutMap 11 \<and>
   mobileKitPin (floatingDetailsUIContentManager exampleWorldWithoutMap) = None \<and>
   updateMobileKitPin (examplePlatform False) exampleWorldWithoutMap =
     (None, exampleWorldWithoutMap, [])"
  by (simp add: updateMobileKitPin_def Let_def skip_def noMobileKitData_def examplePlatform_def
        exampleWorldWithoutMap_def exampleWorldWithReading_def exampleWorld_def)

section \<open>Failures\<close>

text \<open>
  C6. The error callback of a position request prints the error, returns normally and
  changes nothing. When \<open>JSON.parse\<close> throws on an inbound payload, the callback of the
  subscription prints the payload and the error caught, returns normally and changes
  nothing: no field of either reading is written.
\<close>

theorem failures_logged_reading_untouched:
  "onGeoPositionError error w = (None, w, [Print (''processGeoPosition() error: '' @ error)]) \<and>
   (JSON_parse P response = Inl e \<longrightarrow>
      onGPSLocationResponse P response w =
        (None, w,
         [Print (''startGPSLocationSubscription() - GPS Location subscription response: '' @ response),
          Print (''startGPSLocationSubscription() - Error parsing GPS location data: ''
                 @ errorString e)]))"
  by (simp add: result_eq_iff onGeoPositionError_def onGPSLocationResponse_def parseAndStore_def exec)

text \<open>C6 on a payload that does not parse and on a position error.\<close>

theorem failures_logged_witness:
  "JSON_parse (examplePlatform False) ''{'' = Inl (SyntaxError ''Unexpected token'') \<and>
   onGPSLocationResponse (examplePlatform False) ''{'' exampleWorldWithReading =
     (None, exampleWorldWithReading,
      [Print ''startGPSLocationSubscription() - GPS Location subscription response: {'',
       Print ''startGPSLocationSubscription() - Error parsing GPS location data: SyntaxError: Unexpected token'']) \<and>
   onGeoPositionError ''Location permission denied'' exampleWorldWithReading =
     (None, exampleWorldWithReading,
      [Print ''processGeoPosition() error: Location permission denied''])"
proof -
  have parse: "JSON_parse (examplePlatform False) ''{'' = Inl (SyntaxError ''Unexpected token'')"
    by (simp add: examplePlatform_def exampleParse_def firstMessage_def secondMessage_def)
  from failures_logged_reading_untouched
    [of "''Location permission denied''" exampleWorldWithReading "examplePlatform False" "''{''"
        "SyntaxError ''Unexpected token''"]
  show ?thesis
    using parse by simp
qed


section \<open>The compact panel: label and status icon\<close>

text \<open>
  C7, as the code has it. The short label and the status icon are given for every string:
  the four named sources have a label and an icon of their own, and the empty string and
  every other string have the label "Unknown" and the white icon. When the source has
  changed since the last render, the update leaves visible, among the configured status
  icons, exactly the icon selected for the new source if that icon is configured; if it is
  not configured, no configured status icon is left visible and the update ends with the
  warning.
\<close>

theorem status_label_and_icon_selection:
  "getShortLocationSource ''NOT_AVAILABLE'' = ''Not available'' \<and>
   getShortLocationSource ''GNSS_RECEIVER'' = ''GNSS / GPS'' \<and>
   getShortLocationSource ''WIFI_POSITIONING_SYSTEM'' = ''WiFi'' \<and>
   getShortLocationSource ''FUSED_LOCATION'' = ''Fused'' \<and>
   getShortLocationSource [] = ''Unknown'' \<and>
   (s \<notin> {''NOT_AVAILABLE'', ''GNSS_RECEIVER'', ''WIFI_POSITIONING_SYSTEM'', ''FUSED_LOCATION''} \<longrightarrow>
      getShortLocationSource s = ''Unknown'' \<and>
      getGPSStatusImage hl s = gpsStatusWhiteImage hl) \<and>
   getGPSStatusImage hl ''NOT_AVAILABLE'' = gpsStatusRedImage hl \<and>
   getGPSStatusImage hl ''GNSS_RECEIVER'' = gpsStatusBlueImage hl \<and>
   getGPSStatusImage hl ''WIFI_POSITIONING_SYSTEM'' = gpsStatusYellowImage hl \<and>
   getGPSStatusImage hl ''FUSED_LOCATION'' = gpsStatusGreenImage hl \<and>
   (hl_locationManager (handLockedUIContentManager w) \<and>
    locationSource (locationManager w) \<noteq> lastLocationSource (handLockedUIContentManager w) \<longrightarrow>
      enabledStatusImages (after (updateGPSStatusIndicator w)) =
        (case getGPSStatusImage (handLockedUIContentManager w) (locationSource (locationManager w)) of
           None \<Rightarrow> [] | Some t \<Rightarrow> [t]) \<and>
      (getGPSStatusImage (handLockedUIContentManager w) (locationSource (locationManager w)) = None
         \<longrightarrow> last (effects (updateGPSStatusIndicator w)) =
               Print (''updateGPSStatusIndicator() - Warning: No image found for GPS status: ''
                      @ locationSource (locationManager w))))"
proof -
  have labels: "getShortLocationSource ''NOT_AVAILABLE'' = ''Not available'' \<and>
     getShortLocationSource ''GNSS_RECEIVER'' = ''GNSS / GPS'' \<and>
     getShortLocationSource ''WIFI_POSITIONING_SYSTEM'' = ''WiFi'' \<and>
     getShortLocationSource ''FUSED_LOCATION'' = ''Fused'' \<and>
     getShortLocationSource [] = ''Unknown''"
    by (simp add: getShortLocationSource_def)
  have icons: "getGPSStatusImage hl ''NOT_AVAILABLE'' = gpsStatusRedImage hl \<and>
     getGPSStatusImage hl ''GNSS_RECEIVER'' = gpsStatusBlueImage hl \<and>
     getGPSStatusImage hl ''WIFI_POSITIONING_SYSTEM'' = gpsStatusYellowImage hl \<and>
     getGPSStatusImage hl ''FUSED_LOCATION'' = gpsStatusGreenImage hl"
    by (simp add: getGPSStatusImage_def)
  have other: "getShortLocationSource s = ''Unknown'' \<and> getGPSStatusImage hl s = gpsStatusWhiteImage hl"
    if "s \<notin> {''NOT_AVAILABLE'', ''GNSS_RECEIVER'', ''WIFI_POSITIONING_SYSTEM'', ''FUSED_LOCATION''}"
    using that by (simp add: getShortLocationSource_def getGPSStatusImage_def)
  have warning: "last (effects (updateGPSStatusIndicator w)) =
      Print (''updateGPSStatusIndicator() - Warning: No image found for GPS status: ''
             @ locationSource (locationManager w))"
    if "hl_locationManager (handLockedUIContentManager w)"
      "locationSource (locationManager w) \<noteq> lastLocationSource (handLockedUIContentManager w)"
      "getGPSStatusImage (handLockedUIContentManager w) (locationSource (locationManager w)) = None"
    using that by (simp add: updateGPSStatusIndicator_changed)
  show ?thesis
    using labels icons other warning enabledStatusImages_after_change [of w] by blast
qed

text \<open>C7, amended, when the source of the example scene turns to GNSS: the blue icon alone.\<close>

theorem status_icon_witness:
  "hl_locationManager (handLockedUIContentManager exampleWorldWithFix) \<and>
   locationSource (locationManager exampleWorldWithFix) = ''GNSS_RECEIVER'' \<and>
   lastLocationSource (handLockedUIContentManager exampleWorldWithFix) = [] \<and>
   getShortLocationSource ''Galileo'' = ''Unknown'' \<and>
   enabledStatusImages (after (updateGPSStatusIndicator exampleWorldWithFix)) = [3]"
proof -
  have h: "hl_locationManager (handLockedUIContentManager exampleWorldWithFix)"
    "locationSource (locationManager exampleWorldWithFix) = ''GNSS_RECEIVER''"
    "lastLocationSource (handLockedUIContentManager exampleWorldWithFix) = []"
    "getGPSStatusImage (handLockedUIContentManager exampleWorldWithFix) ''GNSS_RECEIVER'' = Some 3"
    by (simp_all add: exampleWorldWithFix_def exampleWorld_def getGPSStatusImage_def)
  from status_label_and_icon_selection [of "''Galileo''" _ exampleWorldWithFix] h
  show ?thesis by simp
qed

text \<open>
  C7 as stated fails when the image selected is not assigned: with no blue image, the
  change of the source to GNSS hides the white icon that was showing and shows none.
\<close>

theorem no_status_icon_enabled_counterexample:
  "enabledStatusImages exampleWorldWithoutBlue = [1] \<and>
   enabledStatusImages (after (updateGPSStatusIndicator exampleWorldWithoutBlue)) = [] \<and>
   effects (updateGPSStatusIndicator exampleWorldWithoutBlue) =
     [SetEnabled 1 False, SetEnabled 2 False, SetEnabled 4 False, SetEnabled 5 False,
      Print ''updateGPSStatusIndicator() - Warning: No image found for GPS status: GNSS_RECEIVER'']"
proof -
  have h: "hl_locationManager (handLockedUIContentManager exampleWorldWithoutBlue)"
    "locationSource (locationManager exampleWorldWithoutBlue) = ''GNSS_RECEIVER''"
    "lastLocationSource (handLockedUIContentManager exampleWorldWithoutBlue) = []"
    "getGPSStatusImage (handLockedUIContentManager exampleWorldWithoutBlue) ''GNSS_RECEIVER'' = None"
    "statusImages (handLockedUIContentManager exampleWorldWithoutBlue) = [1, 2, 4, 5]"
    "enabled exampleWorldWithoutBlue = (\<lambda>i. i = 1)"
    by (simp_all add: exampleWorldWithoutBlue_def exampleWorldWithFix_def exampleWorld_def
          getGPSStatusImage_def statusImages_def)
  have "enabledStatusImages exampleWorldWithoutBlue = [1]"
    by (simp add: enabledStatusImages_def h)
  moreover have "enabledStatusImages (after (updateGPSStatusIndicator exampleWorldWithoutBlue)) = []"
    by (simp add: enabledStatusImages_after_change h)
  moreover have "effects (updateGPSStatusIndicator exampleWorldWithoutBlue) =
     [SetEnabled 1 False, SetEnabled 2 False, SetEnabled 4 False, SetEnabled 5 False,
      Print ''updateGPSStatusIndicator() - Warning: No image found for GPS status: GNSS_RECEIVER'']"
    by (simp add: updateGPSStatusIndicator_changed h)
  ultimately show ?thesis by simp
qed


section \<open>The compact panel: the last-source cache\<close>

text \<open>
  C8. Take a render of the compact panel in a world \<open>w1\<close>, and a later render in a world
  \<open>w2\<close> in which the source label of the LocationManager is the same and the content
  manager is as the first render left it. The later render writes no visibility of any
  scene object: its status-icon update is skipped.
\<close>

theorem second_render_writes_no_icon_visibility:
  assumes "locationSource (locationManager w2) = locationSource (locationManager w1)"
    and "handLockedUIContentManager w2 = handLockedUIContentManager (after (onUpdate P w1))"
  shows "visibilityWrites (effects (onUpdate P w2)) = []"
proof -
  have "\<not> hl_locationManager (handLockedUIContentManager w2) \<or>
      locationSource (locationManager w2) = lastLocationSource (handLockedUIContentManager w2)"
    using assms by (simp add: onUpdate_parts updateGPSStatusIndicator_cache)
  then have "updateGPSStatusIndicator w2 = (None, w2, [])"
    by (rule updateGPSStatusIndicator_unchanged)
  then show ?thesis
    unfolding onUpdate_parts(6) by (simp add: visibilityWrites_def)
qed


text \<open>
  C8 on the example scene with a GNSS fix: the first render hides the five icons and shows
  the blue one, the second render writes no visibility.
\<close>

theorem second_render_witness:
  "visibilityWrites (effects (onUpdate (examplePlatform False) exampleWorldWithFix)) =
     [SetEnabled 1 False, SetEnabled 2 False, SetEnabled 3 False, SetEnabled 4 False,
      SetEnabled 5 False, SetEnabled 3 True] \<and>
   locationSource (locationManager (after (onUpdate (examplePlatform False) exampleWorldWithFix))) =
     locationSource (locationManager exampleWorldWithFix) \<and>
   visibilityWrites
     (effects (onUpdate (examplePlatform False)
        (after (onUpdate (examplePlatform False) exampleWorldWithFix)))) = []"
proof -
  have h: "hl_locationManager (handLockedUIContentManager exampleWorldWithFix)"
    "locationSource (locationManager exampleWorldWithFix) = ''GNSS_RECEIVER''"
    "lastLocationSource (handLockedUIContentManager exampleWorldWithFix) = []"
    "getGPSStatusImage (handLockedUIContentManager exampleWorldWithFix) ''GNSS_RECEIVER'' = Some 3"
    "statusImages (handLockedUIContentManager exampleWorldWithFix) = [1, 2, 3, 4, 5]"
    by (simp_all add: exampleWorldWithFix_def exampleWorld_def getGPSStatusImage_def statusImages_def)
  have first: "visibilityWrites (effects (onUpdate (examplePlatform False) exampleWorldWithFix)) =
     [SetEnabled 1 False, SetEnabled 2 False, SetEnabled 3 False, SetEnabled 4 False,
      SetEnabled 5 False, SetEnabled 3 True]"
    unfolding onUpdate_parts(6)
    by (simp add: updateGPSStatusIndicator_changed h visibilityWrites_def)
  have same: "locationSource (locationManager (after (onUpdate (examplePlatform False) exampleWorldWithFix))) =
     locationSource (locationManager exampleWorldWithFix)"
    by (simp add: onUpdate_parts)
  from second_render_writes_no_icon_visibility [OF same refl] first same
  show ?thesis by simp
qed


section \<open>References that are not assigned\<close>

text \<open>
  C9, as the code has it by design, guard by guard. An input that a null check guards is
  not dereferenced when it is not assigned: the guarded use is skipped and the operation
  returns normally. A warning is printed by \<open>closeButtonPressed\<close> and \<open>detailsButtonPressed\<close>
  (the frame), by \<open>positionUI\<close> (the back plate) and by \<open>updateGPSStatusIndicator\<close> when the
  image selected for the new source is not assigned. Every other guard skips silently: the
  content manager in \<open>newLocationManagerDataAvailable\<close>; the LocationManager and the text in
  \<open>updateLocationText\<close>; the map component in \<open>updateMobileKitPin\<close> and \<open>removeMobileKitPin\<close>;
  the LocationManager in the three updates of the compact panel; the compass image; each of
  the five status images in \<open>disableAllGPSStatusImages\<close>; each of the three texts in
  \<open>updateLocationTextElements\<close>. The render of the compact panel never throws.
\<close>

theorem guarded_references_skip:
  "(\<not> lm_floatingDetailsUIContentManager (locationManager w) \<longrightarrow>
      newLocationManagerDataAvailable P w = (None, w, [])) \<and>
   (\<not> fd_locationManager (floatingDetailsUIContentManager w) \<or>
    locationDataText (floatingDetailsUIContentManager w) = None \<longrightarrow>
      updateLocationText P w = (None, w, [])) \<and>
   (\<not> mapComponent (floatingDetailsUIContentManager w) \<longrightarrow>
      updateMobileKitPin P w = (None, w, []) \<and> removeMobileKitPin w = (None, w, [])) \<and>
   (\<not> hl_locationManager (handLockedUIContentManager w) \<longrightarrow>
      updateGPSStatusIndicator w = (None, w, []) \<and>
      updateLocationTextElements P w = (None, w, []) \<and>
      updateCompassRotation w = (None, w, []) \<and>
      onUpdate P w = (None, w, [])) \<and>
   (compassImage (handLockedUIContentManager w) = None \<longrightarrow>
      updateCompassRotation w = (None, w, [])) \<and>
   disableAllGPSStatusImages w =
     (None,
      w\<lparr>enabled := (\<lambda>i. if i \<in> set (statusImages (handLockedUIContentManager w)) then False
                          else enabled w i)\<rparr>,
      map (\<lambda>i. SetEnabled i False) (statusImages (handLockedUIContentManager w))) \<and>
   outcome (updateLocationTextElements P w) = None \<and>
   (hl_locationManager (handLockedUIContentManager w) \<longrightarrow>
      effects (updateLocationTextElements P w) =
        textWrites
          [(sourceValueText (handLockedUIContentManager w),
            getShortLocationSource (locationSource (locationManager w))),
           (accuracyValueText (handLockedUIContentManager w),
            toFixed P (lm_horizontalAccuracy (locationManager w)) 0 @ ''m''),
           (headingValueText (handLockedUIContentManager w),
            toFixed P (heading (locationManager w)) 0 @ degreeSuffix)]) \<and>
   (hl_locationManager (handLockedUIContentManager w) \<and>
    locationSource (locationManager w) \<noteq> lastLocationSource (handLockedUIContentManager w) \<and>
    getGPSStatusImage (handLockedUIContentManager w) (locationSource (locationManager w)) = None \<longrightarrow>
      outcome (updateGPSStatusIndicator w) = None \<and>
      effects (updateGPSStatusIndicator w) =
        map (\<lambda>i. SetEnabled i False) (statusImages (handLockedUIContentManager w)) @
        [Print (''updateGPSStatusIndicator() - Warning: No image found for GPS status: ''
                @ locationSource (locationManager w))]) \<and>
   outcome (onUpdate P w) = None \<and>
   (fp_floatingDetailsUIFrame (floatingDetailsUIPresentationManager w) = None \<longrightarrow>
      closeButtonPressed w =
        (None, w, [Print ''closeButtonPressed() - Warning: floatingDetailsUIFrame is not assigned.''])) \<and>
   (hp_floatingDetailsUIFrame (handLockedUIPresentationManager w) = None \<longrightarrow>
      detailsButtonPressed P w =
        (None, w, [Print ''detailsButtonPressed() - Warning: floatingDetailsUIFrame is not assigned.''])) \<and>
   (handLockedUIBackPlate (handLockedUIPresentationManager w) = None \<longrightarrow>
      positionUI P tr w =
        (None, w, [Print ''positionUI() - Warning: handLockedUIBackPlate is not assigned.'']))"
proof -
  have content: "\<not> lm_floatingDetailsUIContentManager (locationManager w) \<longrightarrow>
      newLocationManagerDataAvailable P w = (None, w, [])"
    by (simp add: newLocationManagerDataAvailable_def skip_def)
  have location_text: "\<not> fd_locationManager (floatingDetailsUIContentManager w) \<or>
    locationDataText (floatingDetailsUIContentManager w) = None \<longrightarrow>
      updateLocationText P w = (None, w, [])"
    by (auto simp add: updateLocationText_def skip_def Let_def)
  have compact: "\<not> hl_locationManager (handLockedUIContentManager w) \<longrightarrow>
      updateGPSStatusIndicator w = (None, w, []) \<and>
      updateLocationTextElements P w = (None, w, []) \<and>
      updateCompassRotation w = (None, w, []) \<and>
      onUpdate P w = (None, w, [])"
    by (simp add: unassigned_locationManager onUpdate_unassigned)
  have selected: "hl_locationManager (handLockedUIContentManager w) \<and>
    locationSource (locationManager w) \<noteq> lastLocationSource (handLockedUIContentManager w) \<and>
    getGPSStatusImage (handLockedUIContentManager w) (locationSource (locationManager w)) = None \<longrightarrow>
      outcome (updateGPSStatusIndicator w) = None \<and>
      effects (updateGPSStatusIndicator w) =
        map (\<lambda>i. SetEnabled i False) (statusImages (handLockedUIContentManager w)) @
        [Print (''updateGPSStatusIndicator() - Warning: No image found for GPS status: ''
                @ locationSource (locationManager w))]"
    by (simp add: unassigned_target_image)
  show ?thesis
    by (intro conjI content location_text compact selected)
       (simp_all add: unassigned_map updateCompassRotation_result disableAllGPSStatusImages_result
          updateLocationTextElements_result onUpdate_returns unassigned_frames)
qed

text \<open>
  C9, amended, on two example scenes: one with the guarded inputs not assigned, one with a
  position reported and the image of its status, one text and the compass image not assigned.
\<close>

theorem guarded_references_witness:
  "newLocationManagerDataAvailable (examplePlatform False) exampleWorldUnwired =
     (None, exampleWorldUnwired, []) \<and>
   updateLocationText (examplePlatform False) exampleWorldUnwired = (None, exampleWorldUnwired, []) \<and>
   updateMobileKitPin (examplePlatform False) exampleWorldUnwired = (None, exampleWorldUnwired, []) \<and>
   removeMobileKitPin exampleWorldUnwired = (None, exampleWorldUnwired, []) \<and>
   onUpdate (examplePlatform False) exampleWorldUnwired = (None, exampleWorldUnwired, []) \<and>
   closeButtonPressed exampleWorldUnwired =
     (None, exampleWorldUnwired,
      [Print ''closeButtonPressed() - Warning: floatingDetailsUIFrame is not assigned.'']) \<and>
   detailsButtonPressed (examplePlatform False) exampleWorldUnwired =
     (None, exampleWorldUnwired,
      [Print ''detailsButtonPressed() - Warning: floatingDetailsUIFrame is not assigned.'']) \<and>
   positionUI (examplePlatform False) exampleTracking exampleWorldUnwired =
     (None, exampleWorldUnwired,
      [Print ''positionUI() - Warning: handLockedUIBackPlate is not assigned.'']) \<and>
   effects (disableAllGPSStatusImages exampleWorldPartlyWired) =
     [SetEnabled 1 False, SetEnabled 2 False, SetEnabled 4 False, SetEnabled 5 False] \<and>
   effects (updateLocationTextElements (examplePlatform False) exampleWorldPartlyWired) =
     [SetText 6 ''GNSS / GPS'', SetText 9 (''0'' @ degreeSuffix)] \<and>
   updateCompassRotation exampleWorldPartlyWired = (None, exampleWorldPartlyWired, []) \<and>
   effects (updateGPSStatusIndicator exampleWorldPartlyWired) =
     [SetEnabled 1 False, SetEnabled 2 False, SetEnabled 4 False, SetEnabled 5 False,
      Print ''updateGPSStatusIndicator() - Warning: No image found for GPS status: GNSS_RECEIVER''] \<and>
   outcome (onUpdate (examplePlatform False) exampleWorldPartlyWired) = None"
proof -
  have unwired:
    "\<not> lm_floatingDetailsUIContentManager (locationManager exampleWorldUnwired)"
    "locationDataText (floatingDetailsUIContentManager exampleWorldUnwired) = None"
    "\<not> mapComponent (floatingDetailsUIContentManager exampleWorldUnwired)"
    "\<not> hl_locationManager (handLockedUIContentManager exampleWorldUnwired)"
    "compassImage (handLockedUIContentManager exampleWorldUnwired) = None"
    "fp_floatingDetailsUIFrame (floatingDetailsUIPresentationManager exampleWorldUnwired) = None"
    "hp_floatingDetailsUIFrame (handLockedUIPresentationManager exampleWorldUnwired) = None"
    "handLockedUIBackPlate (handLockedUIPresentationManager exampleWorldUnwired) = None"
    by (simp_all add: exampleWorldUnwired_def exampleWorldWithReading_def exampleWorld_def)
  have partly:
    "hl_locationManager (handLockedUIContentManager exampleWorldPartlyWired)"
    "locationSource (locationManager exampleWorldPartlyWired) = ''GNSS_RECEIVER''"
    "lastLocationSource (handLockedUIContentManager exampleWorldPartlyWired) = []"
    "getGPSStatusImage (handLockedUIContentManager exampleWorldPartlyWired) ''GNSS_RECEIVER'' = None"
    "compassImage (handLockedUIContentManager exampleWorldPartlyWired) = None"
    "statusImages (handLockedUIContentManager exampleWorldPartlyWired) = [1, 2, 4, 5]"
    "sourceValueText (handLockedUIContentManager exampleWorldPartlyWired) = Some 6"
    "accuracyValueText (handLockedUIContentManager exampleWorldPartlyWired) = None"
    "headingValueText (handLockedUIContentManager exampleWorldPartlyWired) = Some 9"
    "heading (locationManager exampleWorldPartlyWired) = 0"
    by (simp_all add: exampleWorldPartlyWired_def exampleWorldWithFix_def exampleWorld_def
          getGPSStatusImage_def statusImages_def)
  note at_unwired =
    guarded_references_skip [of exampleWorldUnwired "examplePlatform False" exampleTracking]
  note at_partly =
    guarded_references_skip [of exampleWorldPartlyWired "examplePlatform False" exampleTracking]
  from at_unwired unwired have 1:
    "newLocationManagerDataAvailable (examplePlatform False) exampleWorldUnwired =
       (None, exampleWorldUnwired, [])"
    "updateLocationText (examplePlatform False) exampleWorldUnwired = (None, exampleWorldUnwired, [])"
    "updateMobileKitPin (examplePlatform False) exampleWorldUnwired = (None, exampleWorldUnwired, [])"
    "removeMobileKitPin exampleWorldUnwired = (None, exampleWorldUnwired, [])"
    "onUpdate (examplePlatform False) exampleWorldUnwired = (None, exampleWorldUnwired, [])"
    "closeButtonPressed exampleWorldUnwired =
       (None, exampleWorldUnwired,
        [Print ''closeButtonPressed() - Warning: floatingDetailsUIFrame is not assigned.''])"
    "detailsButtonPressed (examplePlatform False) exampleWorldUnwired =
       (None, exampleWorldUnwired,
        [Print ''detailsButtonPressed() - Warning: floatingDetailsUIFrame is not assigned.''])"
    "positionUI (examplePlatform False) exampleTracking exampleWorldUnwired =
       (None, exampleWorldUnwired,
        [Print ''positionUI() - Warning: handLockedUIBackPlate is not assigned.''])"
    by blast+
  from at_partly partly have 2:
    "effects (disableAllGPSStatusImages exampleWorldPartlyWired) =
       map (\<lambda>i. SetEnabled i False) [1, 2, 4, 5]"
    "effects (updateLocationTextElements (examplePlatform False) exampleWorldPartlyWired) =
       textWrites
         [(Some 6, getShortLocationSource ''GNSS_RECEIVER''),
          (None, toFixed (examplePlatform False)
                   (lm_horizontalAccuracy (locationManager exampleWorldPartlyWired)) 0 @ ''m''),
          (Some 9, toFixed (examplePlatform False) 0 0 @ degreeSuffix)]"
    "updateCompassRotation exampleWorldPartlyWired = (None, exampleWorldPartlyWired, [])"
    "effects (updateGPSStatusIndicator exampleWorldPartlyWired) =
       map (\<lambda>i. SetEnabled i False) [1, 2, 4, 5] @
       [Print (''updateGPSStatusIndicator() - Warning: No image found for GPS status: ''
               @ ''GNSS_RECEIVER'')]"
    "outcome (onUpdate (examplePlatform False) exampleWorldPartlyWired) = None"
    by simp_all
  show ?thesis
    using 1 2
    by (simp add: textWrites_def getShortLocationSource_def example_states(3)
          toFixedDecimal_examples [simplified])
qed

text \<open>
  C9 as stated fails: the notification of the LocationManager skips without any warning;
  the notification of the MobileKitManager and the text of the secondary source
  dereference a reference that is not assigned, which throws a TypeError; and the frame
  callback of the HandLockedUIPresentationManager, after \<open>positionUI\<close> has warned that the
  back plate is not assigned, dereferences it in \<open>checkForUIActivation\<close>.
\<close>

theorem unassigned_reference_counterexample:
  "\<not> lm_floatingDetailsUIContentManager (locationManager exampleWorldUnwired) \<and>
   effects (newLocationManagerDataAvailable (examplePlatform False) exampleWorldUnwired) = [] \<and>
   \<not> mk_floatingDetailsUIContentManager (mobileKitManager exampleWorldUnwired) \<and>
   outcome (newMobileKitDataAvailable (examplePlatform False) exampleWorldUnwired) = Some TypeError \<and>
   mobileKitText (floatingDetailsUIContentManager exampleWorldUnwired) = None \<and>
   outcome (updateMobileKitText (examplePlatform False) exampleWorldUnwired) = Some TypeError \<and>
   handLockedUIBackPlate (handLockedUIPresentationManager exampleWorldUnwired) = None \<and>
   presentationOnUpdate (examplePlatform False) exampleTracking exampleWorldUnwired =
     (Some TypeError, exampleWorldUnwired,
      [Print ''positionUI() - Warning: handLockedUIBackPlate is not assigned.''])"
  by (simp add: newLocationManagerDataAvailable_def newMobileKitDataAvailable_def
        updateMobileKitText_def mobileKitDataText_def Let_def exec
        presentationOnUpdate_def positionUI_def checkForUIActivation_def result_eq_iff
        exampleWorldUnwired_def exampleWorldWithReading_def exampleWorld_def examplePlatform_def
        exampleTracking_def)

section \<open>The compact panel before the first source label\<close>

text \<open>
  C10. At component start, with every component as constructed, the last-source cache and
  the source label of the LocationManager are equal, both the empty string. After any
  sequence of events in which no position with a
  source label other than the empty string arrives, they still are; so the status-icon
  update of a frame tick returns at once, leaving the world as it is with no effect at all,
  and the whole frame tick writes no visibility: no status icon, the white one included, is
  enabled by this code.
\<close>

theorem no_icon_write_before_first_source:
  assumes "atComponentStart w" and "list_all reportsNoSource evs"
  shows "lastLocationSource (handLockedUIContentManager w) = locationSource (locationManager w) \<and>
    noSourceYet (fst (run P evs w)) \<and>
    updateGPSStatusIndicator (fst (run P evs w)) = (None, fst (run P evs w), []) \<and>
    visibilityWrites (effects (dispatch P FrameUpdate (fst (run P evs w)))) = []"
proof -
  let ?w = "fst (run P evs w)"
  note initial = atComponentStart_noSourceYet [OF assms(1)]
  then have start: "noSourceYet ?w"
    using assms(2) by (simp add: run_start)
  then have skipped: "updateGPSStatusIndicator ?w = (None, ?w, [])"
    by (intro updateGPSStatusIndicator_unchanged) (simp add: noSourceYet_def)
  have "visibilityWrites (effects (onUpdate P ?w)) = []"
    unfolding onUpdate_parts(6) skipped by (simp add: visibilityWrites_def)
  with initial start skipped show ?thesis by simp
qed

text \<open>C10 on the example scene and a session of fourteen events with three frame ticks.\<close>

theorem no_icon_write_witness:
  "atComponentStart exampleWorld \<and> list_all reportsNoSource eventsWithoutSource \<and>
   lastLocationSource (handLockedUIContentManager exampleWorld) = [] \<and>
   locationSource (locationManager exampleWorld) = [] \<and>
   updateGPSStatusIndicator (fst (run (examplePlatform False) eventsWithoutSource exampleWorld)) =
     (None, fst (run (examplePlatform False) eventsWithoutSource exampleWorld), []) \<and>
   visibilityWrites (effects (dispatch (examplePlatform False) FrameUpdate
     (fst (run (examplePlatform False) eventsWithoutSource exampleWorld)))) = []"
proof -
  have a: "atComponentStart exampleWorld"
    by (simp add: atComponentStart_def exampleWorld_def newLocationManager_def
          newMobileKitManager_def newHandLockedUIContentManager_def
          newFloatingDetailsUIContentManager_def)
  have b: "list_all reportsNoSource eventsWithoutSource"
    by (simp add: eventsWithoutSource_def positionWithoutSource_def)
  have c: "lastLocationSource (handLockedUIContentManager exampleWorld) = []"
    "locationSource (locationManager exampleWorld) = []"
    by (simp_all add: exampleWorld_def)
  from no_icon_write_before_first_source [OF a b, of "examplePlatform False"] a b c
  show ?thesis by simp
qed


end
